theory Spec2Isabelle
  imports Main
begin

section \<open>Source locations and macro provenance\<close>

text \<open>
  The plugins query Clang's source manager about the provenance of a location.  A location
  is a position in a file, or a macro location with a spelling location and an expansion
  location; a macro location either belongs to the replacement text of a macro (body
  expansion) or to an argument passed to a function-like macro (argument expansion).
  The datatype keeps exactly what the queries used by the plugins read.
\<close>

datatype SourceLocation =
    FileLoc nat nat
  | MacroBodyLoc SourceLocation SourceLocation
  | MacroArgLoc SourceLocation SourceLocation

fun isMacroID :: "SourceLocation \<Rightarrow> bool" where
  "isMacroID (FileLoc f off) = False"
| "isMacroID (MacroBodyLoc sp ex) = True"
| "isMacroID (MacroArgLoc sp ex) = True"

fun isMacroBodyExpansion :: "SourceLocation \<Rightarrow> bool" where
  "isMacroBodyExpansion (MacroBodyLoc sp ex) = True"
| "isMacroBodyExpansion (FileLoc f off) = False"
| "isMacroBodyExpansion (MacroArgLoc sp ex) = False"

fun isMacroArgExpansion :: "SourceLocation \<Rightarrow> bool" where
  "isMacroArgExpansion (MacroArgLoc sp ex) = True"
| "isMacroArgExpansion (FileLoc f off) = False"
| "isMacroArgExpansion (MacroBodyLoc sp ex) = False"

text \<open>
  The caller of a macro argument expansion is where the argument was spelled; the caller
  of a body expansion is where the macro was expanded; a file location is its own caller.
\<close>

fun getImmediateMacroCallerLoc :: "SourceLocation \<Rightarrow> SourceLocation" where
  "getImmediateMacroCallerLoc (FileLoc f off) = FileLoc f off"
| "getImmediateMacroCallerLoc (MacroArgLoc sp ex) = sp"
| "getImmediateMacroCallerLoc (MacroBodyLoc sp ex) = ex"

fun getSpellingLoc :: "SourceLocation \<Rightarrow> SourceLocation" where
  "getSpellingLoc (FileLoc f off) = FileLoc f off"
| "getSpellingLoc (MacroBodyLoc sp ex) = getSpellingLoc sp"
| "getSpellingLoc (MacroArgLoc sp ex) = getSpellingLoc sp"

text \<open>
  The loop \<^verbatim>\<open>while (isMacroArgExpansion(l)) l = getImmediateMacroCallerLoc(l);\<close>
  of the redundant-cast plugin.
\<close>

fun skipMacroArgExpansions :: "SourceLocation \<Rightarrow> SourceLocation" where
  "skipMacroArgExpansions (MacroArgLoc sp ex) = skipMacroArgExpansions sp"
| "skipMacroArgExpansions (FileLoc f off) = FileLoc f off"
| "skipMacroArgExpansions (MacroBodyLoc sp ex) = MacroBodyLoc sp ex"

section \<open>Types\<close>

datatype BuiltinKind =
    BT_Void | BT_Bool
  | BT_Char_U | BT_UChar | BT_WChar_U | BT_Char16 | BT_Char32
  | BT_UShort | BT_UInt | BT_ULong | BT_ULongLong | BT_UInt128
  | BT_Char_S | BT_SChar | BT_WChar_S
  | BT_Short | BT_Int | BT_Long | BT_LongLong | BT_Int128
  | BT_Half | BT_Float | BT_Double | BT_LongDouble
  | BT_NullPtr

record RecordDecl =
  recordName :: string
  recordNamespaces :: "string list"
  isCompleteDefinition :: bool

text \<open>
  A qualified type is a type with its local const and volatile qualifiers.  A typedef
  type carries the name of its declaration and the type it stands for.  Clang compares
  qualified types by the identity of the uniqued type node and the qualifier bits, which
  is structural equality here.
\<close>

datatype Type =
    BuiltinType BuiltinKind
  | PointerType QualType
  | LValueReferenceType QualType
  | RValueReferenceType QualType
  | ConstantArrayType QualType nat
  | VectorType QualType nat
  | FunctionProtoType QualType "QualType list"
  | RecordType RecordDecl
  | EnumType string
  | TypedefType string QualType
and QualType = QualType Type bool bool

fun getTypePtr :: "QualType \<Rightarrow> Type" where
  "getTypePtr (QualType t c v) = t"

fun isLocalConstQualified :: "QualType \<Rightarrow> bool" where
  "isLocalConstQualified (QualType t c v) = c"

fun isLocalVolatileQualified :: "QualType \<Rightarrow> bool" where
  "isLocalVolatileQualified (QualType t c v) = v"

definition hasLocalQualifiers :: "QualType \<Rightarrow> bool" where
  "hasLocalQualifiers q = (isLocalConstQualified q \<or> isLocalVolatileQualified q)"

fun addQualifiers :: "bool \<Rightarrow> bool \<Rightarrow> QualType \<Rightarrow> QualType" where
  "addQualifiers c v (QualType t c' v') = QualType t (c \<or> c') (v \<or> v')"

text \<open>
  Canonical types.  Every type node has a canonical type, in which the typedefs are
  resolved (\<^verbatim>\<open>Type::getCanonicalTypeInternal\<close>).  The canonical type of a
  qualified type in the sense of \<^verbatim>\<open>ASTContext::getCanonicalType\<close> moves the
  qualifiers of an array type to its element type; this is the form stored in the type
  nodes.  \<^verbatim>\<open>QualType::getCanonicalType\<close>, which the plugins call, adds the
  local qualifiers to the canonical type of the type node.
\<close>

fun withQualifiers :: "bool \<Rightarrow> bool \<Rightarrow> QualType \<Rightarrow> QualType" where
  "withQualifiers c v (QualType (ConstantArrayType el n) c' v') =
     QualType (ConstantArrayType (withQualifiers (c \<or> c') (v \<or> v') el) n) False False"
| "withQualifiers c v (QualType t c' v') = QualType t (c \<or> c') (v \<or> v')"

fun getCanonicalTypeInternal :: "Type \<Rightarrow> QualType"
  and ASTContext_getCanonicalType :: "QualType \<Rightarrow> QualType" where
  "getCanonicalTypeInternal (BuiltinType k) = QualType (BuiltinType k) False False"
| "getCanonicalTypeInternal (PointerType p) =
     QualType (PointerType (ASTContext_getCanonicalType p)) False False"
| "getCanonicalTypeInternal (LValueReferenceType p) =
     QualType (LValueReferenceType (ASTContext_getCanonicalType p)) False False"
| "getCanonicalTypeInternal (RValueReferenceType p) =
     QualType (RValueReferenceType (ASTContext_getCanonicalType p)) False False"
| "getCanonicalTypeInternal (ConstantArrayType el n) =
     QualType (ConstantArrayType (ASTContext_getCanonicalType el) n) False False"
| "getCanonicalTypeInternal (VectorType el n) =
     QualType (VectorType (ASTContext_getCanonicalType el) n) False False"
| "getCanonicalTypeInternal (FunctionProtoType r ps) =
     QualType (FunctionProtoType (ASTContext_getCanonicalType r)
                 (map ASTContext_getCanonicalType ps)) False False"
| "getCanonicalTypeInternal (RecordType d) = QualType (RecordType d) False False"
| "getCanonicalTypeInternal (EnumType n) = QualType (EnumType n) False False"
| "getCanonicalTypeInternal (TypedefType n u) = ASTContext_getCanonicalType u"
| "ASTContext_getCanonicalType (QualType t c v) =
     withQualifiers c v (getCanonicalTypeInternal t)"

fun getCanonicalType :: "QualType \<Rightarrow> QualType" where
  "getCanonicalType (QualType t c v) = addQualifiers c v (getCanonicalTypeInternal t)"


definition getCanonicalTypePtr :: "QualType \<Rightarrow> Type" where
  "getCanonicalTypePtr q = getTypePtr (getCanonicalType q)"

text \<open>
  The type predicates of Clang look through typedefs: they test the canonical type.
\<close>

definition isPointerType :: "QualType \<Rightarrow> bool" where
  "isPointerType q = (case getCanonicalTypePtr q of PointerType p \<Rightarrow> True | _ \<Rightarrow> False)"

definition isReferenceType :: "QualType \<Rightarrow> bool" where
  "isReferenceType q =
     (case getCanonicalTypePtr q of
        LValueReferenceType p \<Rightarrow> True
      | RValueReferenceType p \<Rightarrow> True
      | _ \<Rightarrow> False)"

definition isRecordType :: "QualType \<Rightarrow> bool" where
  "isRecordType q = (case getCanonicalTypePtr q of RecordType d \<Rightarrow> True | _ \<Rightarrow> False)"

definition isArrayType :: "QualType \<Rightarrow> bool" where
  "isArrayType q = (case getCanonicalTypePtr q of ConstantArrayType el n \<Rightarrow> True | _ \<Rightarrow> False)"

definition isFunctionType :: "QualType \<Rightarrow> bool" where
  "isFunctionType q = (case getCanonicalTypePtr q of FunctionProtoType r ps \<Rightarrow> True | _ \<Rightarrow> False)"

definition isBuiltinType :: "QualType \<Rightarrow> bool" where
  "isBuiltinType q = (case getCanonicalTypePtr q of BuiltinType k \<Rightarrow> True | _ \<Rightarrow> False)"

definition isVoidType :: "QualType \<Rightarrow> bool" where
  "isVoidType q = (getCanonicalTypePtr q = BuiltinType BT_Void)"

definition isBooleanType :: "QualType \<Rightarrow> bool" where
  "isBooleanType q = (getCanonicalTypePtr q = BuiltinType BT_Bool)"

definition isNullPtrType :: "QualType \<Rightarrow> bool" where
  "isNullPtrType q = (getCanonicalTypePtr q = BuiltinType BT_NullPtr)"

definition isObjectType :: "QualType \<Rightarrow> bool" where
  "isObjectType q = (\<not> (isFunctionType q \<or> isReferenceType q \<or> isVoidType q))"

text \<open>
  In C++ (the only language the redundant-cast plugin runs on) the integral types are the
  builtin kinds from bool to the 128 bit integers; enumerations are not integral.
\<close>

definition isIntegralKind :: "BuiltinKind \<Rightarrow> bool" where
  "isIntegralKind k =
     (k \<in> {BT_Bool, BT_Char_U, BT_UChar, BT_WChar_U, BT_Char16, BT_Char32, BT_UShort,
            BT_UInt, BT_ULong, BT_ULongLong, BT_UInt128, BT_Char_S, BT_SChar, BT_WChar_S,
            BT_Short, BT_Int, BT_Long, BT_LongLong, BT_Int128})"

definition isIntegralType :: "QualType \<Rightarrow> bool" where
  "isIntegralType q =
     (case getCanonicalTypePtr q of BuiltinType k \<Rightarrow> isIntegralKind k | _ \<Rightarrow> False)"

definition isRealFloatingType :: "QualType \<Rightarrow> bool" where
  "isRealFloatingType q =
     (case getCanonicalTypePtr q of
        BuiltinType k \<Rightarrow> k \<in> {BT_Half, BT_Float, BT_Double, BT_LongDouble}
      | _ \<Rightarrow> False)"

fun isIncompleteTypePtr :: "Type \<Rightarrow> bool" where
  "isIncompleteTypePtr (BuiltinType k) = (k = BT_Void)"
| "isIncompleteTypePtr (RecordType d) = (\<not> isCompleteDefinition d)"
| "isIncompleteTypePtr (ConstantArrayType (QualType t c v) n) = isIncompleteTypePtr t"
| "isIncompleteTypePtr (TypedefType n (QualType t c v)) = isIncompleteTypePtr t"
| "isIncompleteTypePtr (PointerType p) = False"
| "isIncompleteTypePtr (LValueReferenceType p) = False"
| "isIncompleteTypePtr (RValueReferenceType p) = False"
| "isIncompleteTypePtr (VectorType el n) = False"
| "isIncompleteTypePtr (FunctionProtoType r ps) = False"
| "isIncompleteTypePtr (EnumType n) = False"

definition isIncompleteType :: "QualType \<Rightarrow> bool" where
  "isIncompleteType q = isIncompleteTypePtr (getTypePtr q)"

definition isConstQualified :: "QualType \<Rightarrow> bool" where
  "isConstQualified q =
     (isLocalConstQualified q
      \<or> isLocalConstQualified (getCanonicalTypeInternal (getTypePtr q)))"

definition isVolatileQualified :: "QualType \<Rightarrow> bool" where
  "isVolatileQualified q =
     (isLocalVolatileQualified q
      \<or> isLocalVolatileQualified (getCanonicalTypeInternal (getTypePtr q)))"

text \<open>
  \<^verbatim>\<open>getAs<PointerType>()\<close> looks through typedefs for a pointer type and gives
  access to its pointee type as written; \<^verbatim>\<open>getAs<TypedefType>()\<close> finds the
  typedef a type is written with.  Both give a null pointer when there is none.
\<close>

fun getAsPointerTypePtr :: "Type \<Rightarrow> QualType option" where
  "getAsPointerTypePtr (PointerType p) = Some p"
| "getAsPointerTypePtr (TypedefType n (QualType t c v)) = getAsPointerTypePtr t"
| "getAsPointerTypePtr (BuiltinType k) = None"
| "getAsPointerTypePtr (LValueReferenceType p) = None"
| "getAsPointerTypePtr (RValueReferenceType p) = None"
| "getAsPointerTypePtr (ConstantArrayType el n) = None"
| "getAsPointerTypePtr (VectorType el n) = None"
| "getAsPointerTypePtr (FunctionProtoType r ps) = None"
| "getAsPointerTypePtr (RecordType d) = None"
| "getAsPointerTypePtr (EnumType n) = None"

definition getAsPointerType :: "QualType \<Rightarrow> QualType option" where
  "getAsPointerType q = getAsPointerTypePtr (getTypePtr q)"

definition getAsTypedefType :: "QualType \<Rightarrow> Type option" where
  "getAsTypedefType q =
     (case getTypePtr q of TypedefType n u \<Rightarrow> Some (TypedefType n u) | _ \<Rightarrow> None)"

subsection \<open>The type checks of check.hxx\<close>

text \<open>
  Modelled from the spec: the helpers \<^verbatim>\<open>loplugin::TypeCheck\<close> and
  \<^verbatim>\<open>loplugin::DeclCheck\<close> of check.hxx, which the plugins call and whose
  definitions are not part of the sources at hand.  The spec describes them as category
  tags of a type descriptor (typedef, enum, pointer, void, qualifier bits) and as a match
  by name and namespace.
\<close>

definition TypeCheck_Typedef :: "QualType \<Rightarrow> bool" where
  "TypeCheck_Typedef q = (getAsTypedefType q \<noteq> None)"

definition TypeCheck_Enum :: "QualType \<Rightarrow> bool" where
  "TypeCheck_Enum q = (case getCanonicalTypePtr q of EnumType n \<Rightarrow> True | _ \<Rightarrow> False)"

definition TypeCheck_Pointer_NonConstVolatile_Void :: "QualType \<Rightarrow> bool" where
  "TypeCheck_Pointer_NonConstVolatile_Void q =
     (case getAsPointerType q of
        None \<Rightarrow> False
      | Some p \<Rightarrow> \<not> isConstQualified p \<and> \<not> isVolatileQualified p \<and> isVoidType p)"

definition TypeCheck_Class :: "QualType \<Rightarrow> string \<Rightarrow> string list \<Rightarrow> bool" where
  "TypeCheck_Class q n ns =
     (case getCanonicalTypePtr q of
        RecordType d \<Rightarrow> recordName d = n \<and> recordNamespaces d = ns
      | _ \<Rightarrow> False)"


section \<open>The syntax tree\<close>

datatype ExprValueKind = VK_RValue | VK_LValue | VK_XValue

datatype CastKind =
    CK_NoOp | CK_BitCast | CK_LValueToRValue | CK_DerivedToBase | CK_UncheckedDerivedToBase
  | CK_ConstructorConversion | CK_UserDefinedConversion | CK_IntegralCast
  | CK_IntegralToBoolean | CK_FloatingCast | CK_ArrayToPointerDecay
  | CK_FunctionToPointerDecay | CK_NullToPointer | CK_OtherCast

datatype BinaryOperatorKind =
    BO_PtrMemD | BO_PtrMemI
  | BO_Mul | BO_Div | BO_Rem | BO_Add | BO_Sub | BO_Shl | BO_Shr
  | BO_LT | BO_GT | BO_LE | BO_GE | BO_EQ | BO_NE
  | BO_And | BO_Xor | BO_Or | BO_LAnd | BO_LOr
  | BO_Assign | BO_MulAssign | BO_DivAssign | BO_RemAssign | BO_AddAssign | BO_SubAssign
  | BO_ShlAssign | BO_ShrAssign | BO_AndAssign | BO_XorAssign | BO_OrAssign
  | BO_Comma

datatype OverloadedOperatorKind =
    OO_Plus | OO_Minus | OO_Star | OO_Slash | OO_Percent | OO_Caret | OO_Amp | OO_Pipe
  | OO_Equal | OO_Less | OO_Greater
  | OO_PlusEqual | OO_MinusEqual | OO_StarEqual | OO_SlashEqual | OO_PercentEqual
  | OO_CaretEqual | OO_AmpEqual | OO_PipeEqual | OO_LessLess | OO_GreaterGreater
  | OO_LessLessEqual | OO_GreaterGreaterEqual | OO_EqualEqual | OO_ExclaimEqual
  | OO_PlusPlus | OO_MinusMinus | OO_Comma | OO_Arrow | OO_Call | OO_Subscript

text \<open>
  A parameter declaration is identified by its name, type and location (the plugin keeps
  pointers to parameter declarations; two declarations are the same when these agree).
\<close>

record ParmVarDecl =
  parmName :: string
  parmType :: QualType
  parmLocation :: SourceLocation

text \<open>
  The declaration an expression refers to: a parameter, another variable, a function
  (with its name and the namespaces that enclose it, innermost first), or anything else.
\<close>

datatype ValueDecl =
    ParmVarDeclRef ParmVarDecl
  | VarDeclRef string
  | FunctionDeclRef string "string list"
  | OtherDeclRef string

text \<open>What every expression node carries: type, value category and locations.\<close>

record ExprInfo =
  exprType :: QualType
  exprValueKind :: ExprValueKind
  exprLocStart :: SourceLocation
  exprLoc :: SourceLocation
  exprLocEnd :: SourceLocation

text \<open>
  Expressions and statements.  An explicit cast carries its type as written and its
  operand; a call carries the declaration of its callee (if any), the callee expression
  and the arguments; an overloaded operator call has at least one argument.  An
  expression is a statement (\<open>AsStmt\<close> is the upcast).  \<open>ConditionalOperator\<close>
  stands for both classes of \<^verbatim>\<open>AbstractConditionalOperator\<close>, \<open>CallExpr\<close>
  for every call that is not an overloaded operator call.  \<open>OtherExpr\<close> and
  \<open>OtherStmt\<close> stand for the node classes that the plugins do not single out,
  with their children.
\<close>

datatype Expr =
    ParenExpr ExprInfo Expr
  | ImplicitCastExpr ExprInfo CastKind Expr
  | ExprWithCleanups ExprInfo Expr
  | BinaryOperator ExprInfo BinaryOperatorKind SourceLocation Expr Expr
  | UnaryOperator ExprInfo Expr
  | ConditionalOperator ExprInfo Expr Expr Expr
  | IntegerLiteral ExprInfo int
  | DeclRefExpr ExprInfo ValueDecl
  | CStyleCastExpr ExprInfo QualType Expr
  | CXXFunctionalCastExpr ExprInfo QualType Expr
  | CXXStaticCastExpr ExprInfo QualType Expr
  | CXXConstCastExpr ExprInfo QualType Expr
  | CallExpr ExprInfo "ValueDecl option" Expr "Expr list"
  | CXXOperatorCallExpr ExprInfo OverloadedOperatorKind "ValueDecl option" Expr Expr "Expr list"
  | CXXConstructExpr ExprInfo "Expr list"
  | InitListExpr ExprInfo "Expr list"
  | CXXStdInitializerListExpr ExprInfo Expr
  | LambdaExpr ExprInfo Stmt
  | OtherExpr ExprInfo "Expr list"
and Stmt =
    AsStmt Expr
  | CompoundStmt "Stmt list"
  | DeclStmt "Expr list"
  | IfStmt Expr Stmt "Stmt option"
  | ForStmt "Stmt option" "Expr option" "Expr option" Stmt
  | ReturnStmt "Expr option"
  | OtherStmt "Stmt list"

fun getExprInfo :: "Expr \<Rightarrow> ExprInfo" where
  "getExprInfo (ParenExpr i e) = i"
| "getExprInfo (ImplicitCastExpr i k e) = i"
| "getExprInfo (ExprWithCleanups i e) = i"
| "getExprInfo (BinaryOperator i opc l a b) = i"
| "getExprInfo (UnaryOperator i e) = i"
| "getExprInfo (ConditionalOperator i c a b) = i"
| "getExprInfo (IntegerLiteral i n) = i"
| "getExprInfo (DeclRefExpr i d) = i"
| "getExprInfo (CStyleCastExpr i t e) = i"
| "getExprInfo (CXXFunctionalCastExpr i t e) = i"
| "getExprInfo (CXXStaticCastExpr i t e) = i"
| "getExprInfo (CXXConstCastExpr i t e) = i"
| "getExprInfo (CallExpr i d c as) = i"
| "getExprInfo (CXXOperatorCallExpr i opc d c a as) = i"
| "getExprInfo (CXXConstructExpr i as) = i"
| "getExprInfo (InitListExpr i as) = i"
| "getExprInfo (CXXStdInitializerListExpr i e) = i"
| "getExprInfo (LambdaExpr i s) = i"
| "getExprInfo (OtherExpr i es) = i"

definition getType :: "Expr \<Rightarrow> QualType" where
  "getType e = exprType (getExprInfo e)"

definition getValueKind :: "Expr \<Rightarrow> ExprValueKind" where
  "getValueKind e = exprValueKind (getExprInfo e)"

definition getLocStart :: "Expr \<Rightarrow> SourceLocation" where
  "getLocStart e = exprLocStart (getExprInfo e)"

definition getExprLoc :: "Expr \<Rightarrow> SourceLocation" where
  "getExprLoc e = exprLoc (getExprInfo e)"

definition getLocEnd :: "Expr \<Rightarrow> SourceLocation" where
  "getLocEnd e = exprLocEnd (getExprInfo e)"

fun IgnoreParenImpCasts :: "Expr \<Rightarrow> Expr" where
  "IgnoreParenImpCasts (ParenExpr i e) = IgnoreParenImpCasts e"
| "IgnoreParenImpCasts (ImplicitCastExpr i k e) = IgnoreParenImpCasts e"
| "IgnoreParenImpCasts e = e"

fun isa_DeclRefExpr :: "Expr \<Rightarrow> bool" where
  "isa_DeclRefExpr (DeclRefExpr i d) = True"
| "isa_DeclRefExpr e = False"

fun isa_IntegerLiteral :: "Expr \<Rightarrow> bool" where
  "isa_IntegerLiteral (IntegerLiteral i n) = True"
| "isa_IntegerLiteral e = False"

fun isa_UnaryOperator :: "Expr \<Rightarrow> bool" where
  "isa_UnaryOperator (UnaryOperator i e) = True"
| "isa_UnaryOperator e = False"

fun isa_AbstractConditionalOperator :: "Expr \<Rightarrow> bool" where
  "isa_AbstractConditionalOperator (ConditionalOperator i c a b) = True"
| "isa_AbstractConditionalOperator e = False"

fun isa_InitListExpr :: "Expr \<Rightarrow> bool" where
  "isa_InitListExpr (InitListExpr i as) = True"
| "isa_InitListExpr e = False"

fun isa_CXXStdInitializerListExpr :: "Expr \<Rightarrow> bool" where
  "isa_CXXStdInitializerListExpr (CXXStdInitializerListExpr i e) = True"
| "isa_CXXStdInitializerListExpr e = False"


fun isa_ParenExpr :: "Stmt \<Rightarrow> bool" where
  "isa_ParenExpr (AsStmt (ParenExpr i e)) = True"
| "isa_ParenExpr s = False"

fun isa_BinaryOperator :: "Stmt \<Rightarrow> bool" where
  "isa_BinaryOperator (AsStmt (BinaryOperator i opc l a b)) = True"
| "isa_BinaryOperator s = False"

fun isa_ForStmt :: "Stmt \<Rightarrow> bool" where
  "isa_ForStmt (ForStmt init cond inc body) = True"
| "isa_ForStmt s = False"

fun isa_ExprWithCleanups :: "Stmt \<Rightarrow> bool" where
  "isa_ExprWithCleanups (AsStmt (ExprWithCleanups i e)) = True"
| "isa_ExprWithCleanups s = False"

subsection \<open>Function declarations\<close>

datatype FunctionDeclKind =
  FD_Function | FD_CXXMethod | FD_CXXConstructor | FD_CXXDestructor | FD_CXXConversion

record CXXCtorInitializer =
  isMemberInitializer :: bool
  getInit :: Expr

record FunctionDecl =
  getLocation :: SourceLocation
  getCanonicalDeclLocation :: SourceLocation
  getDeclKind :: FunctionDeclKind
  isDeleted :: bool
  isFunctionTemplateSpecialization :: bool
  size_overridden_methods :: nat
  parameters :: "ParmVarDecl list"
  defaultArguments :: "Expr list"
  inits :: "CXXCtorInitializer list"
  getBody :: "Stmt option"

definition doesThisDeclarationHaveABody :: "FunctionDecl \<Rightarrow> bool" where
  "doesThisDeclarationHaveABody fd = (getBody fd \<noteq> None)"

definition isa_CXXMethodDecl :: "FunctionDecl \<Rightarrow> bool" where
  "isa_CXXMethodDecl fd = (getDeclKind fd \<noteq> FD_Function)"

definition isa_CXXConstructorDecl :: "FunctionDecl \<Rightarrow> bool" where
  "isa_CXXConstructorDecl fd = (getDeclKind fd = FD_CXXConstructor)"

section \<open>Diagnostics and the services the plugins rely on\<close>

datatype Level = Warning | Note

record Diagnostic =
  diagLevel :: Level
  diagMessage :: string
  diagLocation :: SourceLocation

definition report :: "Level \<Rightarrow> string \<Rightarrow> SourceLocation \<Rightarrow> Diagnostic" where
  "report lv msg loc = \<lparr>diagLevel = lv, diagMessage = msg, diagLocation = loc\<rparr>"

text \<open>
  What the plugins take from their base class (plugin.hxx, compat.hxx) and from the
  compiler, none of which is defined in the sources at hand: the three overloads of
  \<^verbatim>\<open>ignoreLocation\<close>, \<^verbatim>\<open>isInUnoIncludeFile\<close>,
  \<^verbatim>\<open>parentStmt\<close>, \<^verbatim>\<open>compat::getSubExprAsWritten\<close>, the
  lexer's name of the macro a location was expanded from, the source manager's test for the
  start of a macro expansion, the semantic analyser's test for a qualification
  conversion, and the size of a type in characters.  They are parameters of the model.
\<close>

record PluginContext =
  ignoreLocationStmt :: "Stmt \<Rightarrow> bool"
  ignoreLocationDecl :: "FunctionDecl \<Rightarrow> bool"
  ignoreLocation :: "SourceLocation \<Rightarrow> bool"
  isInUnoIncludeFile :: "SourceLocation \<Rightarrow> bool"
  parentStmt :: "Stmt \<Rightarrow> Stmt option"
  getSubExprAsWritten :: "Expr \<Rightarrow> Expr"
  getImmediateMacroName :: "SourceLocation \<Rightarrow> string"
  isAtStartOfImmediateMacroExpansion :: "SourceLocation \<Rightarrow> bool"
  IsQualificationConversion :: "QualType \<Rightarrow> QualType \<Rightarrow> bool"
  getTypeSizeInChars :: "Type \<Rightarrow> nat"


section \<open>The redundant-cast plugin\<close>

definition isRedundantConstCast :: "PluginContext \<Rightarrow> Expr \<Rightarrow> bool" where
  "isRedundantConstCast ctx expr =
     (let sub = getSubExprAsWritten ctx expr in
        getCanonicalType (getType expr) = getCanonicalType (getType sub)
        \<and> (getValueKind expr \<noteq> VK_XValue \<or> getValueKind sub = VK_XValue))"

function isArithmeticOp :: "Expr \<Rightarrow> bool" where
  "isArithmeticOp expr =
     (case IgnoreParenImpCasts expr of
        BinaryOperator i opc l lhs rhs \<Rightarrow>
          (case opc of
             BO_Mul \<Rightarrow> True
           | BO_Div \<Rightarrow> True
           | BO_Rem \<Rightarrow> True
           | BO_Add \<Rightarrow> True
           | BO_Sub \<Rightarrow> True
           | BO_Shl \<Rightarrow> True
           | BO_Shr \<Rightarrow> True
           | BO_And \<Rightarrow> True
           | BO_Xor \<Rightarrow> True
           | BO_Or \<Rightarrow> True
           | BO_Comma \<Rightarrow> isArithmeticOp rhs
           | _ \<Rightarrow> False)
      | e \<Rightarrow> isa_UnaryOperator e \<or> isa_AbstractConditionalOperator e)"
  by pat_completeness auto
termination
proof (relation "measure size")
  show "wf (measure (size :: Expr \<Rightarrow> nat))" by simp
next
  fix expr :: Expr and i opc l lhs rhs
  assume "IgnoreParenImpCasts expr = BinaryOperator i opc l lhs rhs"
  moreover have "size (IgnoreParenImpCasts e) \<le> size e" for e
    by (induction e rule: IgnoreParenImpCasts.induct) simp_all
  ultimately have "size (BinaryOperator i opc l lhs rhs) \<le> size expr"
    by metis
  then show "(rhs, expr) \<in> measure size" by simp
qed

declare isArithmeticOp.simps [simp del]

definition canConstCastFromTo :: "Expr \<Rightarrow> Expr \<Rightarrow> bool" where
  "canConstCastFromTo from to =
     (let k1 = getValueKind from; k2 = getValueKind to in
        (k2 = VK_LValue \<and> k1 = VK_LValue)
        \<or> (k2 = VK_XValue \<and> (k1 \<noteq> VK_RValue \<or> isRecordType (getType from))))"

fun printExprValueKind :: "ExprValueKind \<Rightarrow> string" where
  "printExprValueKind VK_RValue = ''prvalue''"
| "printExprValueKind VK_LValue = ''lvalue''"
| "printExprValueKind VK_XValue = ''xvalue''"

definition isOkToRemoveArithmeticCast :: "QualType \<Rightarrow> QualType \<Rightarrow> Expr \<Rightarrow> bool" where
  "isOkToRemoveArithmeticCast t1 t2 subExpr =
     (if (isIntegralType t1 \<or> isRealFloatingType t1)
         \<and> ((t1 \<noteq> t2 \<and> (TypeCheck_Typedef t1 \<or> TypeCheck_Typedef t2))
              \<or> isArithmeticOp subExpr
              \<or> isa_IntegerLiteral (IgnoreParenImpCasts subExpr))
      then False
      else True)"

fun VisitCStyleCastExpr :: "PluginContext \<Rightarrow> Expr \<Rightarrow> Diagnostic list" where
  "VisitCStyleCastExpr ctx (CStyleCastExpr i typeAsWritten subExpr) =
     (let expr = CStyleCastExpr i typeAsWritten subExpr in
      if ignoreLocationStmt ctx (AsStmt expr) then []
      else if isInUnoIncludeFile ctx (getSpellingLoc (getLocStart expr)) then []
      else
        let t1 = getType (getSubExprAsWritten ctx expr);
            t2 = typeAsWritten
        in
        if t1 \<noteq> t2 then []
        else if \<not> isBuiltinType t1 \<and> \<not> TypeCheck_Enum t1 \<and> \<not> TypeCheck_Typedef t1 then []
        else if \<not> isOkToRemoveArithmeticCast t1 t2 subExpr then []
        else
          let l1 = skipMacroArgExpansions (getLocStart expr);
              l2 = skipMacroArgExpansions (getExprLoc expr);
              l3 = skipMacroArgExpansions (getLocEnd expr)
          in
          if isMacroBodyExpansion l1 \<and> isMacroBodyExpansion l2 \<and> isMacroBodyExpansion l3
             \<and> ignoreLocation ctx (getSpellingLoc l2)
          then []
          else [report Warning ''redundant cstyle cast from %0 to %1'' (getExprLoc expr)])"
| "VisitCStyleCastExpr ctx e = []"

text \<open>
  The loop of the functional-cast rule that walks from the start of the operand up
  through the macro expansions it starts, looking for the macro \<^verbatim>\<open>FD_ISSET\<close>.
\<close>

function startsExpansionOfFD_ISSET :: "PluginContext \<Rightarrow> SourceLocation \<Rightarrow> bool" where
  "startsExpansionOfFD_ISSET ctx loc =
     (if isMacroID loc \<and> isAtStartOfImmediateMacroExpansion ctx loc
      then (if getImmediateMacroName ctx loc = ''FD_ISSET'' then True
            else startsExpansionOfFD_ISSET ctx (getImmediateMacroCallerLoc loc))
      else False)"
  by pat_completeness auto
termination
proof (relation "measure (\<lambda>(ctx, loc). size loc)")
  show "wf (measure (\<lambda>(ctx :: PluginContext, loc :: SourceLocation). size loc))" by simp
next
  fix ctx :: PluginContext and loc :: SourceLocation
  assume "isMacroID loc \<and> isAtStartOfImmediateMacroExpansion ctx loc"
  then have "size (getImmediateMacroCallerLoc loc) < size loc"
    by (cases loc) simp_all
  then show "((ctx, getImmediateMacroCallerLoc loc), (ctx, loc))
               \<in> measure (\<lambda>(ctx, loc). size loc)"
    by simp
qed

declare startsExpansionOfFD_ISSET.simps [simp del]

fun getDesugaredType :: "QualType \<Rightarrow> QualType" where
  "getDesugaredType (QualType (TypedefType n u) c v) = addQualifiers c v (getDesugaredType u)"
| "getDesugaredType (QualType t c v) = QualType t c v"

fun VisitCXXFunctionalCastExpr :: "PluginContext \<Rightarrow> Expr \<Rightarrow> Diagnostic list" where
  "VisitCXXFunctionalCastExpr ctx (CXXFunctionalCastExpr i typeAsWritten subExpr) =
     (let expr = CXXFunctionalCastExpr i typeAsWritten subExpr in
      if ignoreLocationStmt ctx (AsStmt expr) then []
      else
        let sub = getSubExprAsWritten ctx expr in
        if getValueKind sub \<noteq> VK_RValue \<or> isRecordType (getType expr)
           \<or> isa_InitListExpr sub \<or> isa_CXXStdInitializerListExpr sub
        then []
        else
          let eloc = getExprLoc expr in
          if isMacroArgExpansion eloc
             \<and> (getImmediateMacroName ctx eloc = ''CPPUNIT_ASSERT''
                  \<or> getImmediateMacroName ctx eloc = ''CPPUNIT_ASSERT_MESSAGE'')
          then []
          else if isMacroID (getLocEnd sub) \<and> startsExpansionOfFD_ISSET ctx (getLocStart sub)
          then []
          else
            let t1 = typeAsWritten;
                t2 = getDesugaredType (getType sub)
            in
            if t1 \<noteq> t2 then []
            else if (TypeCheck_Typedef t1 \<or> TypeCheck_Typedef (getType sub))
                    \<and> t1 \<noteq> getType sub
            then []
            else if \<not> isOkToRemoveArithmeticCast t1 t2 subExpr then []
            else [report Warning ''redundant functional cast from %0 to %1'' (getExprLoc expr)])"
| "VisitCXXFunctionalCastExpr ctx e = []"


text \<open>
  The block of the static_cast rule about \<^verbatim>\<open>void *\<close> types written with
  typedefs.  The result is \<open>Some True\<close> when the rule returns without a report,
  \<open>Some False\<close> when it goes on, and \<open>None\<close> when the code dereferences the
  null pointer that \<^verbatim>\<open>getAs<clang::PointerType>()\<close> gives for a type that
  is not a pointer.
\<close>

definition voidPointerTypedefMismatch :: "QualType \<Rightarrow> QualType \<Rightarrow> bool option" where
  "voidPointerTypedefMismatch t1 t2 =
     (if TypeCheck_Pointer_NonConstVolatile_Void t1 then
        (case getAsTypedefType t1 of
           Some td1 \<Rightarrow>
             (let td2 = getAsTypedefType t2 in Some (td2 = None \<or> td2 \<noteq> Some td1))
         | None \<Rightarrow>
             (case getAsTypedefType t2 of
                Some td2 \<Rightarrow>
                  (let td1 = getAsTypedefType t1 in Some (td1 = None \<or> td1 \<noteq> Some td2))
              | None \<Rightarrow>
                  (case getAsPointerType t1 of
                     None \<Rightarrow> None
                   | Some pt1 \<Rightarrow>
                       (case getAsPointerType t2 of
                          None \<Rightarrow> None
                        | Some pt2 \<Rightarrow>
                            (case getAsTypedefType pt1 of
                               Some ptd1 \<Rightarrow>
                                 (let ptd2 = getAsTypedefType pt2
                                  in Some (ptd2 = None \<or> ptd2 \<noteq> Some ptd1))
                             | None \<Rightarrow>
                                 (case getAsTypedefType pt2 of
                                    Some ptd2 \<Rightarrow>
                                      (let ptd1 = getAsTypedefType pt1
                                       in Some (ptd1 = None \<or> ptd1 \<noteq> Some ptd2))
                                  | None \<Rightarrow> Some False))))))
      else Some False)"

text \<open>
  The static_cast rule.  \<open>None\<close> is the null pointer dereference described above;
  otherwise the result is the list of reports.
\<close>

fun VisitCXXStaticCastExpr :: "PluginContext \<Rightarrow> Expr \<Rightarrow> Diagnostic list option" where
  "VisitCXXStaticCastExpr ctx (CXXStaticCastExpr i typeAsWritten subExpr) =
     (let expr = CXXStaticCastExpr i typeAsWritten subExpr in
      if ignoreLocationStmt ctx (AsStmt expr) then Some []
      else
        let sub = getSubExprAsWritten ctx expr;
            t1 = getType sub;
            t2 = typeAsWritten;
            nonClassObjectType = (isObjectType t2 \<and> \<not> (isRecordType t2 \<or> isArrayType t2))
        in
        if nonClassObjectType \<and> hasLocalQualifiers t2
        then Some [report Warning
               (''in static_cast from %0 %1 to %2 %3, remove redundant top-level''
                @ '' %select{const qualifier|volatile qualifier|const volatile''
                @ '' qualifiers}4'')
               (getExprLoc expr)]
        else
          let t3 = getType expr;
              c1 = getCanonicalType t1;
              c3 = getCanonicalType t3
          in
          if (if nonClassObjectType \<or> \<not> canConstCastFromTo sub expr
              then getTypePtr c1 \<noteq> getTypePtr c3 else c1 \<noteq> c3)
          then
            (if nonClassObjectType
                \<or> (getTypePtr c1 \<noteq> getTypePtr c3 \<and> \<not> IsQualificationConversion ctx c1 c3)
             then Some []
             else Some [report Warning
                    ''static_cast from %0 %1 to %2 %3 should be written as const_cast''
                    (getExprLoc expr)])
          else if \<not> isOkToRemoveArithmeticCast t1 t2 subExpr then Some []
          else
            (case voidPointerTypedefMismatch t1 t2 of
               None \<Rightarrow> None
             | Some True \<Rightarrow> Some []
             | Some False \<Rightarrow>
                 (let k1 = getValueKind sub;
                      k3 = getValueKind expr
                  in
                  if (k3 = VK_XValue \<and> k1 \<noteq> VK_XValue) \<or> (k3 = VK_LValue \<and> k1 = VK_XValue)
                  then Some []
                  else if isBooleanType t1 \<and> isBooleanType t2
                          \<and> isMacroBodyExpansion (getLocStart expr)
                          \<and> getImmediateMacroName ctx (getLocStart expr) = ''assert''
                  then Some []
                  else Some [report Warning
                         (''static_cast from %0 %1 to %2 %3 is redundant%select{| or should be''
                          @ '' written as an explicit construction of a temporary}4'')
                         (getExprLoc expr)])))"
| "VisitCXXStaticCastExpr ctx e = Some []"

text \<open>
  The loop of the const_cast rule that walks the pointer levels of the three types in
  lock-step; it yields the value of \<^verbatim>\<open>redundant\<close> at its exit.
\<close>

function qualifiersAlreadyInStaticCast ::
  "QualType \<Rightarrow> bool \<Rightarrow> QualType \<Rightarrow> QualType \<Rightarrow> bool" where
  "qualifiersAlreadyInStaticCast t1 isNullptr t2 t3 =
     (if (isConstQualified t2 \<and> (isNullptr \<or> \<not> isConstQualified t1)
            \<and> \<not> isConstQualified t3)
         \<or> (isVolatileQualified t2 \<and> (isNullptr \<or> \<not> isVolatileQualified t1)
              \<and> \<not> isVolatileQualified t3)
      then True
      else
        (case (if \<not> isNullptr
               then map_option (\<lambda>p1. (p1, isNullPtrType p1)) (getAsPointerType t1)
               else Some (t1, isNullptr)) of
           None \<Rightarrow> False
         | Some (t1', isNullptr') \<Rightarrow>
             (case getAsPointerType t2 of
                None \<Rightarrow> False
              | Some p2 \<Rightarrow>
                  (case getAsPointerType t3 of
                     None \<Rightarrow> False
                   | Some p3 \<Rightarrow> qualifiersAlreadyInStaticCast t1' isNullptr' p2 p3))))"
  by pat_completeness auto
termination
proof -
  have ptr: "getAsPointerTypePtr t = Some p \<Longrightarrow> size p < size t" for t p
    by (induction t arbitrary: p rule: getAsPointerTypePtr.induct) fastforce+
  have pointee: "getAsPointerType q = Some p \<Longrightarrow> size p < size q" for q p
    by (cases q) (auto simp: getAsPointerType_def dest: ptr)
  show ?thesis
    by (relation "measure (\<lambda>(t1, isNullptr, t2, t3). size t2)")
       (auto dest: pointee)
qed

declare qualifiersAlreadyInStaticCast.simps [simp del]

fun dyn_cast_CXXStaticCastExpr :: "Expr \<Rightarrow> (QualType \<times> Expr) option" where
  "dyn_cast_CXXStaticCastExpr (CXXStaticCastExpr i typeAsWritten subExpr) =
     Some (typeAsWritten, CXXStaticCastExpr i typeAsWritten subExpr)"
| "dyn_cast_CXXStaticCastExpr e = None"

fun VisitCXXConstCastExpr :: "PluginContext \<Rightarrow> Expr \<Rightarrow> Diagnostic list" where
  "VisitCXXConstCastExpr ctx (CXXConstCastExpr i typeAsWritten subExpr) =
     (let expr = CXXConstCastExpr i typeAsWritten subExpr in
      if ignoreLocationStmt ctx (AsStmt expr) then []
      else
        let sub = getSubExprAsWritten ctx expr in
        if isRedundantConstCast ctx expr
        then [report Warning ''redundant const_cast from %0 %1 to %2 %3'' (getExprLoc expr)]
        else
          (case dyn_cast_CXXStaticCastExpr (IgnoreParenImpCasts sub) of
             None \<Rightarrow> []
           | Some (dceTypeAsWritten, dce) \<Rightarrow>
               (let sub2 = getSubExprAsWritten ctx dce;
                    t1 = getCanonicalType (getType sub2);
                    isNullptr = isNullPtrType t1;
                    t2 = getCanonicalType (getType dce);
                    t3 = getCanonicalType (getType expr);
                    redundant = qualifiersAlreadyInStaticCast t1 isNullptr t2 t3
                in
                if redundant
                then [report Warning
                        (''redundant static_cast/const_cast combination from %0 via %1''
                         @ '' to %2'')
                        (getExprLoc expr)]
                else [])))"
| "VisitCXXConstCastExpr ctx e = []"


section \<open>The comma-operator plugin\<close>

text \<open>
  \<^verbatim>\<open>CommaOperator::VisitBinaryOperator\<close>.  The result \<open>None\<close> stands for
  \<^verbatim>\<open>isa<ForStmt>(parent2)\<close> applied to a null pointer, when the cleanup
  wrapper around the operator has no parent statement.
\<close>

fun VisitBinaryOperator :: "PluginContext \<Rightarrow> Expr \<Rightarrow> Diagnostic list option" where
  "VisitBinaryOperator ctx (BinaryOperator i opc operatorLoc lhs rhs) =
     (let binaryOp = BinaryOperator i opc operatorLoc lhs rhs in
      if ignoreLocationStmt ctx (AsStmt binaryOp) then Some []
      else if isMacroBodyExpansion (getLocStart binaryOp)
              \<and> isMacroBodyExpansion operatorLoc
              \<and> isMacroBodyExpansion (getLocEnd binaryOp)
              \<and> ignoreLocation ctx (getSpellingLoc operatorLoc)
      then Some []
      else if opc \<noteq> BO_Comma then Some []
      else
        (case parentStmt ctx (AsStmt binaryOp) of
           None \<Rightarrow> Some [report Warning ''comma operator hides code'' operatorLoc]
         | Some parent \<Rightarrow>
             if isa_ParenExpr parent then Some []
             else if isa_BinaryOperator parent then Some []
             else if isa_ForStmt parent then Some []
             else if isa_ExprWithCleanups parent then
               (case parentStmt ctx parent of
                  None \<Rightarrow> None
                | Some parent2 \<Rightarrow>
                    if isa_ForStmt parent2 then Some []
                    else Some [report Warning ''comma operator hides code'' operatorLoc])
             else Some [report Warning ''comma operator hides code'' operatorLoc]))"
| "VisitBinaryOperator ctx e = Some []"

section \<open>The pass-parameters-by-reference plugin\<close>

record PassParamsByRef =
  mbInsideFunctionDecl :: bool
  mParamExclusions :: "ParmVarDecl set"

text \<open>
  \<^verbatim>\<open>PassParamsByRef::isFat\<close>.  The last test of the source, that the type
  pointer is not null, always succeeds: the type has been dereferenced before.
\<close>

definition isFat :: "PluginContext \<Rightarrow> QualType \<Rightarrow> bool" where
  "isFat ctx type =
     (if \<not> isRecordType type then False
      else if TypeCheck_Class type ''Reference'' [''uno'', ''star'', ''sun'', ''com'']
              \<or> TypeCheck_Class type ''Sequence'' [''uno'', ''star'', ''sun'', ''com'']
              \<or> TypeCheck_Class type ''OString'' [''rtl'']
              \<or> TypeCheck_Class type ''OUString'' [''rtl'']
              \<or> TypeCheck_Class type ''Reference'' [''rtl'']
      then True
      else if isIncompleteType type then False
      else getTypeSizeInChars ctx (getTypePtr type) > 64)"

fun VisitBinAssign :: "PassParamsByRef \<Rightarrow> Expr \<Rightarrow> PassParamsByRef" where
  "VisitBinAssign st (BinaryOperator i opc operatorLoc lhs rhs) =
     (if \<not> mbInsideFunctionDecl st then st
      else
        (case lhs of
           DeclRefExpr di (ParmVarDeclRef parmVarDecl) \<Rightarrow>
             st\<lparr>mParamExclusions := insert parmVarDecl (mParamExclusions st)\<rparr>
         | _ \<Rightarrow> st))"
| "VisitBinAssign st e = st"

fun VisitCXXOperatorCallExpr :: "PassParamsByRef \<Rightarrow> Expr \<Rightarrow> PassParamsByRef" where
  "VisitCXXOperatorCallExpr st (CXXOperatorCallExpr i op calleeDecl callee arg0 args) =
     (if \<not> mbInsideFunctionDecl st then st
      else if op \<noteq> OO_Equal \<and> op \<noteq> OO_SlashEqual \<and> op \<noteq> OO_StarEqual
              \<and> op \<noteq> OO_MinusEqual \<and> op \<noteq> OO_PlusEqual
      then st
      else
        (case arg0 of
           DeclRefExpr di (ParmVarDeclRef parmVarDecl) \<Rightarrow>
             st\<lparr>mParamExclusions := insert parmVarDecl (mParamExclusions st)\<rparr>
         | _ \<Rightarrow> st))"
| "VisitCXXOperatorCallExpr st e = st"

text \<open>
  \<^verbatim>\<open>PassParamsByRef::TraverseImplicitCastExpr\<close> returns without traversing
  the cast (and what is below it) when the cast is at an ignored location, or when it is
  an lvalue-to-rvalue conversion of a declaration reference.
\<close>

fun TraverseImplicitCastExpr_returnsEarly :: "PluginContext \<Rightarrow> Expr \<Rightarrow> bool" where
  "TraverseImplicitCastExpr_returnsEarly ctx (ImplicitCastExpr i k subExpr) =
     (if ignoreLocationStmt ctx (AsStmt (ImplicitCastExpr i k subExpr)) then True
      else k = CK_LValueToRValue \<and> isa_DeclRefExpr (IgnoreParenImpCasts subExpr))"
| "TraverseImplicitCastExpr_returnsEarly ctx e = False"

text \<open>
  The expression nodes that the recursive visitor reaches from a node, in pre-order: each
  node before its children, the children from left to right, and nothing of an implicit
  cast on which the plugin's override returns early.
\<close>

fun traversedExprs :: "PluginContext \<Rightarrow> Expr \<Rightarrow> Expr list"
  and traversedStmts :: "PluginContext \<Rightarrow> Stmt \<Rightarrow> Expr list" where
  "traversedExprs ctx (ParenExpr i e) = ParenExpr i e # traversedExprs ctx e"
| "traversedExprs ctx (ImplicitCastExpr i k e) =
     (if TraverseImplicitCastExpr_returnsEarly ctx (ImplicitCastExpr i k e) then []
      else ImplicitCastExpr i k e # traversedExprs ctx e)"
| "traversedExprs ctx (ExprWithCleanups i e) = ExprWithCleanups i e # traversedExprs ctx e"
| "traversedExprs ctx (BinaryOperator i opc l a b) =
     BinaryOperator i opc l a b # traversedExprs ctx a @ traversedExprs ctx b"
| "traversedExprs ctx (UnaryOperator i e) = UnaryOperator i e # traversedExprs ctx e"
| "traversedExprs ctx (ConditionalOperator i c a b) =
     ConditionalOperator i c a b
       # traversedExprs ctx c @ traversedExprs ctx a @ traversedExprs ctx b"
| "traversedExprs ctx (IntegerLiteral i n) = [IntegerLiteral i n]"
| "traversedExprs ctx (DeclRefExpr i d) = [DeclRefExpr i d]"
| "traversedExprs ctx (CStyleCastExpr i t e) = CStyleCastExpr i t e # traversedExprs ctx e"
| "traversedExprs ctx (CXXFunctionalCastExpr i t e) =
     CXXFunctionalCastExpr i t e # traversedExprs ctx e"
| "traversedExprs ctx (CXXStaticCastExpr i t e) =
     CXXStaticCastExpr i t e # traversedExprs ctx e"
| "traversedExprs ctx (CXXConstCastExpr i t e) =
     CXXConstCastExpr i t e # traversedExprs ctx e"
| "traversedExprs ctx (CallExpr i d c as) =
     CallExpr i d c as # traversedExprs ctx c @ concat (map (traversedExprs ctx) as)"
| "traversedExprs ctx (CXXOperatorCallExpr i op d c a as) =
     CXXOperatorCallExpr i op d c a as
       # traversedExprs ctx c @ traversedExprs ctx a @ concat (map (traversedExprs ctx) as)"
| "traversedExprs ctx (CXXConstructExpr i as) =
     CXXConstructExpr i as # concat (map (traversedExprs ctx) as)"
| "traversedExprs ctx (InitListExpr i as) =
     InitListExpr i as # concat (map (traversedExprs ctx) as)"
| "traversedExprs ctx (CXXStdInitializerListExpr i e) =
     CXXStdInitializerListExpr i e # traversedExprs ctx e"
| "traversedExprs ctx (LambdaExpr i body) = LambdaExpr i body # traversedStmts ctx body"
| "traversedExprs ctx (OtherExpr i es) =
     OtherExpr i es # concat (map (traversedExprs ctx) es)"
| "traversedStmts ctx (AsStmt e) = traversedExprs ctx e"
| "traversedStmts ctx (CompoundStmt ss) = concat (map (traversedStmts ctx) ss)"
| "traversedStmts ctx (DeclStmt es) = concat (map (traversedExprs ctx) es)"
| "traversedStmts ctx (IfStmt c t el) =
     traversedExprs ctx c @ traversedStmts ctx t
       @ (case el of None \<Rightarrow> [] | Some s \<Rightarrow> traversedStmts ctx s)"
| "traversedStmts ctx (ForStmt init cond inc body) =
     (case init of None \<Rightarrow> [] | Some s \<Rightarrow> traversedStmts ctx s)
       @ (case cond of None \<Rightarrow> [] | Some e \<Rightarrow> traversedExprs ctx e)
       @ (case inc of None \<Rightarrow> [] | Some e \<Rightarrow> traversedExprs ctx e)
       @ traversedStmts ctx body"
| "traversedStmts ctx (ReturnStmt r) =
     (case r of None \<Rightarrow> [] | Some e \<Rightarrow> traversedExprs ctx e)"
| "traversedStmts ctx (OtherStmt ss) = concat (map (traversedStmts ctx) ss)"


text \<open>
  The callbacks that the recursive visitor runs on a node it reaches:
  \<^verbatim>\<open>VisitBinAssign\<close> on a binary operator whose opcode is the plain
  assignment, \<^verbatim>\<open>VisitCXXOperatorCallExpr\<close> on an overloaded operator call.
  All callbacks of the plugin return true, so the traversal never stops early.
\<close>

fun WalkUpFrom :: "PassParamsByRef \<Rightarrow> Expr \<Rightarrow> PassParamsByRef" where
  "WalkUpFrom st (BinaryOperator i opc l a b) =
     (if opc = BO_Assign then VisitBinAssign st (BinaryOperator i opc l a b) else st)"
| "WalkUpFrom st (CXXOperatorCallExpr i op d c a as) =
     VisitCXXOperatorCallExpr st (CXXOperatorCallExpr i op d c a as)"
| "WalkUpFrom st e = st"

text \<open>
  What \<^verbatim>\<open>RecursiveASTVisitor::TraverseFunctionDecl\<close> walks through: the
  default arguments of the parameters, the initializers of a constructor, and the body.
\<close>

definition traversedFunctionDecl :: "PluginContext \<Rightarrow> FunctionDecl \<Rightarrow> Expr list" where
  "traversedFunctionDecl ctx functionDecl =
     concat (map (traversedExprs ctx) (defaultArguments functionDecl))
     @ (if isa_CXXConstructorDecl functionDecl
        then concat (map (\<lambda>ini. traversedExprs ctx (getInit ini)) (inits functionDecl))
        else [])
     @ (case getBody functionDecl of None \<Rightarrow> [] | Some body \<Rightarrow> traversedStmts ctx body)"

text \<open>
  Modelled from the spec: \<^verbatim>\<open>loplugin::DeclCheck(decl).Function(name).StdNamespace()\<close>
  of check.hxx, which is not part of the sources at hand: the declaration is a function of
  the given name declared in namespace std.
\<close>

definition DeclCheck_Function_StdNamespace :: "ValueDecl option \<Rightarrow> string \<Rightarrow> bool" where
  "DeclCheck_Function_StdNamespace decl n =
     (case decl of
        Some (FunctionDeclRef name ns) \<Rightarrow> name = n \<and> ns = [''std'']
      | _ \<Rightarrow> False)"

text \<open>
  The test on one member initializer: its initializer is the construction of the member
  from exactly one argument, and that argument is a call of \<^verbatim>\<open>std::move\<close>.
\<close>

definition isConstructionFromStdMove :: "Expr \<Rightarrow> bool" where
  "isConstructionFromStdMove ini =
     (case IgnoreParenImpCasts ini of
        CXXConstructExpr i args \<Rightarrow>
          (case args of
             [arg] \<Rightarrow>
               (case IgnoreParenImpCasts arg of
                  CallExpr ci calleeDecl callee as \<Rightarrow>
                    DeclCheck_Function_StdNamespace calleeDecl ''move''
                | CXXOperatorCallExpr ci op calleeDecl callee a as \<Rightarrow>
                    DeclCheck_Function_StdNamespace calleeDecl ''move''
                | _ \<Rightarrow> False)
           | _ \<Rightarrow> False)
      | _ \<Rightarrow> False)"

text \<open>The loop over the initializers of a constructor, which stops at the first match.\<close>

fun bFoundMove :: "CXXCtorInitializer list \<Rightarrow> bool" where
  "bFoundMove [] = False"
| "bFoundMove (cxxCtorInitializer # rest) =
     (if isMemberInitializer cxxCtorInitializer
         \<and> isConstructionFromStdMove (getInit cxxCtorInitializer)
      then True
      else bFoundMove rest)"

text \<open>The body of the loop over the parameters, for one parameter.\<close>

definition checkParam ::
  "PluginContext \<Rightarrow> PassParamsByRef \<Rightarrow> FunctionDecl \<Rightarrow> ParmVarDecl \<Rightarrow> Diagnostic list" where
  "checkParam ctx st functionDecl pvDecl =
     (let t = parmType pvDecl in
      if \<not> isFat ctx t then []
      else if pvDecl \<in> mParamExclusions st then []
      else if isa_CXXConstructorDecl functionDecl \<and> bFoundMove (inits functionDecl) then []
      else
        report Warning ''passing %0 by value, rather pass by const lvalue reference''
          (parmLocation pvDecl)
        # (if getCanonicalDeclLocation functionDecl \<noteq> getLocation functionDecl
           then [report Note ''function is declared here:''
                   (getCanonicalDeclLocation functionDecl)]
           else []))"

text \<open>
  \<^verbatim>\<open>PassParamsByRef::TraverseFunctionDecl\<close>: the reports it makes and the
  state of the plugin object when it returns.  The body of a function holds no definition
  of another function that this override is run on (lambdas and the member functions of
  local classes are methods), so the override is not entered again with a body while a
  body is traversed.
\<close>

definition TraverseFunctionDecl ::
  "PluginContext \<Rightarrow> PassParamsByRef \<Rightarrow> FunctionDecl \<Rightarrow> Diagnostic list \<times> PassParamsByRef" where
  "TraverseFunctionDecl ctx st functionDecl =
     (if ignoreLocationDecl ctx functionDecl then ([], st)
      else if isDeleted functionDecl \<or> isFunctionTemplateSpecialization functionDecl
      then ([], st)
      else if isa_CXXMethodDecl functionDecl \<and> size_overridden_methods functionDecl > 0
      then ([], st)
      else if \<not> doesThisDeclarationHaveABody functionDecl then ([], st)
      else
        let st1 = st\<lparr>mbInsideFunctionDecl := True, mParamExclusions := {}\<rparr>;
            st2 = foldl WalkUpFrom st1 (traversedFunctionDecl ctx functionDecl);
            st3 = st2\<lparr>mbInsideFunctionDecl := False\<rparr>
        in (concat (map (checkParam ctx st3 functionDecl) (parameters functionDecl)), st3))"

text \<open>
  How a run of the plugin reaches a function.  The recursive visitor dispatches on the
  kind of a declaration: a plain function goes to \<^verbatim>\<open>TraverseFunctionDecl\<close>, a
  method, constructor, destructor or conversion function to the traversal function of its
  own kind.  The plugin overrides \<^verbatim>\<open>TraverseFunctionDecl\<close> only (its comment
  says that the scaffolding is needed in all of them), so for the other kinds the
  visitor's own traversal runs: it walks through the declaration with the callbacks of the
  plugin and makes no report.
\<close>

definition TraverseDecl ::
  "PluginContext \<Rightarrow> PassParamsByRef \<Rightarrow> FunctionDecl \<Rightarrow> Diagnostic list \<times> PassParamsByRef" where
  "TraverseDecl ctx st functionDecl =
     (if getDeclKind functionDecl = FD_Function
      then TraverseFunctionDecl ctx st functionDecl
      else ([], foldl WalkUpFrom st (traversedFunctionDecl ctx functionDecl)))"

section \<open>Notions used in the claims\<close>

text \<open>
  The condition of claim C2, in its words: the cast is between
  arithmetic types, and either type is a typedef differing from the other, or the operand
  is an arithmetic operation, or the operand is an integer literal.
\<close>

definition arithmeticCastIsGuarded :: "QualType \<Rightarrow> QualType \<Rightarrow> Expr \<Rightarrow> bool" where
  "arithmeticCastIsGuarded source target subExpr =
     ((isIntegralType source \<or> isRealFloatingType source)
      \<and> (isIntegralType target \<or> isRealFloatingType target)
      \<and> ((source \<noteq> target \<and> (TypeCheck_Typedef source \<or> TypeCheck_Typedef target))
           \<or> isArithmeticOp subExpr
           \<or> isa_IntegerLiteral (IgnoreParenImpCasts subExpr)))"

text \<open>
  The accepted positions of a comma operator in the words of claim C7: the parent
  statement is a parenthesized expression, a binary operator, a for statement, or a
  cleanup wrapper whose own parent is a for statement.
\<close>

definition inAcceptedPosition :: "PluginContext \<Rightarrow> Stmt \<Rightarrow> bool" where
  "inAcceptedPosition ctx s =
     (case parentStmt ctx s of
        None \<Rightarrow> False
      | Some parent \<Rightarrow>
          isa_ParenExpr parent \<or> isa_BinaryOperator parent \<or> isa_ForStmt parent
          \<or> (isa_ExprWithCleanups parent
               \<and> (case parentStmt ctx parent of
                      None \<Rightarrow> False
                    | Some parent2 \<Rightarrow> isa_ForStmt parent2)))"

text \<open>
  A property of the parent relation in a syntax tree: a cleanup wrapper around a
  statement has a parent statement itself.
\<close>

definition cleanupWrapperHasParent :: "PluginContext \<Rightarrow> Stmt \<Rightarrow> bool" where
  "cleanupWrapperHasParent ctx s =
     (case parentStmt ctx s of
        None \<Rightarrow> True
      | Some parent \<Rightarrow> isa_ExprWithCleanups parent \<longrightarrow> parentStmt ctx parent \<noteq> None)"

text \<open>
  The expressions of claim C6: a plain assignment whose left operand is a reference to the
  parameter, or a call of an overloaded \<^verbatim>\<open>=\<close>, \<^verbatim>\<open>+=\<close>,
  \<^verbatim>\<open>-=\<close>, \<^verbatim>\<open>*=\<close> or \<^verbatim>\<open>/=\<close> whose first argument
  is a reference to the parameter.
\<close>

fun refersToParameter :: "Expr \<Rightarrow> ParmVarDecl \<Rightarrow> bool" where
  "refersToParameter (DeclRefExpr di (ParmVarDeclRef q)) p = (q = p)"
| "refersToParameter e p = False"

fun assignsToParameter :: "Expr \<Rightarrow> ParmVarDecl \<Rightarrow> bool" where
  "assignsToParameter (BinaryOperator i opc l lhs rhs) p =
     (opc = BO_Assign \<and> refersToParameter lhs p)"
| "assignsToParameter (CXXOperatorCallExpr i op d c arg0 as) p =
     (op \<in> {OO_Equal, OO_PlusEqual, OO_MinusEqual, OO_StarEqual, OO_SlashEqual}
      \<and> refersToParameter arg0 p)"
| "assignsToParameter e p = False"

text \<open>
  The functions that \<^verbatim>\<open>TraverseFunctionDecl\<close> traverses and checks: those
  that pass the tests at its head.
\<close>

definition functionIsChecked :: "PluginContext \<Rightarrow> FunctionDecl \<Rightarrow> bool" where
  "functionIsChecked ctx functionDecl =
     (\<not> ignoreLocationDecl ctx functionDecl
      \<and> \<not> isDeleted functionDecl
      \<and> \<not> isFunctionTemplateSpecialization functionDecl
      \<and> \<not> (isa_CXXMethodDecl functionDecl \<and> size_overridden_methods functionDecl > 0)
      \<and> doesThisDeclarationHaveABody functionDecl)"

section \<open>Example inputs\<close>

text \<open>
  A concrete context: file 9 is a system header (ignored), file 5 is a UNO include file,
  every other file belongs to the project.  A statement or declaration is ignored when
  the file it is expanded in is ignored.  The operand as written of a cast is its operand
  without the implicit casts around it; the size of a type is 128 for the class
  \<^verbatim>\<open>Big\<close>, four times the number of elements for a vector, and small
  otherwise.
\<close>

fun ex_fileOf :: "SourceLocation \<Rightarrow> nat" where
  "ex_fileOf (FileLoc f off) = f"
| "ex_fileOf (MacroBodyLoc sp ex) = ex_fileOf ex"
| "ex_fileOf (MacroArgLoc sp ex) = ex_fileOf ex"

fun ex_skipImplicit :: "Expr \<Rightarrow> Expr" where
  "ex_skipImplicit (ImplicitCastExpr i k e) = ex_skipImplicit e"
| "ex_skipImplicit e = e"

fun ex_subExprAsWritten :: "Expr \<Rightarrow> Expr" where
  "ex_subExprAsWritten (CStyleCastExpr i t e) = ex_skipImplicit e"
| "ex_subExprAsWritten (CXXFunctionalCastExpr i t e) = ex_skipImplicit e"
| "ex_subExprAsWritten (CXXStaticCastExpr i t e) = ex_skipImplicit e"
| "ex_subExprAsWritten (CXXConstCastExpr i t e) = ex_skipImplicit e"
| "ex_subExprAsWritten (ImplicitCastExpr i k e) = ex_skipImplicit e"
| "ex_subExprAsWritten e = e"

fun ex_sizeOf :: "Type \<Rightarrow> nat" where
  "ex_sizeOf (RecordType d) = (if recordName d = ''Big'' then 128 else 8)"
| "ex_sizeOf (VectorType el n) = 4 * n"
| "ex_sizeOf (BuiltinType k) = 4"
| "ex_sizeOf t = 8"

definition ex_context :: PluginContext where
  "ex_context =
     \<lparr>ignoreLocationStmt =
        (\<lambda>s. case s of AsStmt e \<Rightarrow> ex_fileOf (getLocStart e) = 9 | _ \<Rightarrow> False),
      ignoreLocationDecl = (\<lambda>fd. ex_fileOf (getLocation fd) = 9),
      ignoreLocation = (\<lambda>l. ex_fileOf l = 9),
      isInUnoIncludeFile = (\<lambda>l. ex_fileOf l = 5),
      parentStmt = (\<lambda>s. None),
      getSubExprAsWritten = ex_subExprAsWritten,
      getImmediateMacroName = (\<lambda>l. ''assert''),
      isAtStartOfImmediateMacroExpansion = (\<lambda>l. False),
      IsQualificationConversion = (\<lambda>a b. False),
      getTypeSizeInChars = ex_sizeOf\<rparr>"

definition ex_info :: "QualType \<Rightarrow> ExprValueKind \<Rightarrow> SourceLocation \<Rightarrow> ExprInfo" where
  "ex_info t k l =
     \<lparr>exprType = t, exprValueKind = k, exprLocStart = l, exprLoc = l, exprLocEnd = l\<rparr>"

definition ex_int :: QualType where
  "ex_int = QualType (BuiltinType BT_Int) False False"

definition ex_bool :: QualType where
  "ex_bool = QualType (BuiltinType BT_Bool) False False"

text \<open>The variable \<^verbatim>\<open>int x\<close> read as an rvalue.\<close>

definition ex_x :: Expr where
  "ex_x = DeclRefExpr (ex_info ex_int VK_LValue (FileLoc 1 20)) (VarDeclRef ''x'')"

definition ex_x_rvalue :: Expr where
  "ex_x_rvalue =
     ImplicitCastExpr (ex_info ex_int VK_RValue (FileLoc 1 20)) CK_LValueToRValue ex_x"

text \<open>The cast \<^verbatim>\<open>(int)x\<close>, written at a given location.\<close>

definition ex_cstyle_int_x :: "SourceLocation \<Rightarrow> Expr" where
  "ex_cstyle_int_x l = CStyleCastExpr (ex_info ex_int VK_RValue l) ex_int ex_x_rvalue"


text \<open>The variable \<^verbatim>\<open>int * p\<close> read as an rvalue.\<close>

definition ex_int_ptr :: QualType where
  "ex_int_ptr = QualType (PointerType ex_int) False False"

definition ex_const_int_ptr :: QualType where
  "ex_const_int_ptr =
     QualType (PointerType (QualType (BuiltinType BT_Int) True False)) False False"

definition ex_p :: Expr where
  "ex_p = DeclRefExpr (ex_info ex_int_ptr VK_LValue (FileLoc 1 40)) (VarDeclRef ''p'')"

definition ex_p_rvalue :: Expr where
  "ex_p_rvalue =
     ImplicitCastExpr (ex_info ex_int_ptr VK_RValue (FileLoc 1 40)) CK_LValueToRValue ex_p"

text \<open>\<^verbatim>\<open>const_cast<int *>(p)\<close> for \<^verbatim>\<open>int * p\<close>.\<close>

definition ex_const_cast_same :: Expr where
  "ex_const_cast_same =
     CXXConstCastExpr (ex_info ex_int_ptr VK_RValue (FileLoc 1 30)) ex_int_ptr ex_p_rvalue"

text \<open>\<^verbatim>\<open>const_cast<int &&>(x)\<close> for \<^verbatim>\<open>int x\<close>: an xvalue of type int.\<close>

definition ex_const_cast_xvalue :: Expr where
  "ex_const_cast_xvalue =
     CXXConstCastExpr (ex_info ex_int VK_XValue (FileLoc 1 30))
       (QualType (RValueReferenceType ex_int) False False) ex_x"

text \<open>\<^verbatim>\<open>const_cast<int *>(static_cast<int const *>(p))\<close>.\<close>

definition ex_const_cast_of_static_cast :: Expr where
  "ex_const_cast_of_static_cast =
     CXXConstCastExpr (ex_info ex_int_ptr VK_RValue (FileLoc 1 30)) ex_int_ptr
       (CXXStaticCastExpr (ex_info ex_const_int_ptr VK_RValue (FileLoc 1 35)) ex_const_int_ptr
          ex_p_rvalue)"


text \<open>The literal \<^verbatim>\<open>5\<close>.\<close>

definition ex_five :: Expr where
  "ex_five = IntegerLiteral (ex_info ex_int VK_RValue (FileLoc 1 20)) 5"

text \<open>
  \<^verbatim>\<open>static_cast<bool>(b)\<close> as it appears in the expansion of a macro defined in
  a system header and used in a file of the project; \<^verbatim>\<open>b\<close> is the argument
  of the macro.
\<close>

definition ex_static_cast_bool :: Expr where
  "ex_static_cast_bool =
     CXXStaticCastExpr
       (ex_info ex_bool VK_RValue (MacroBodyLoc (FileLoc 9 100) (FileLoc 1 50)))
       ex_bool
       (ImplicitCastExpr
          (ex_info ex_bool VK_RValue (MacroArgLoc (FileLoc 1 57) (MacroBodyLoc (FileLoc 9 120) (FileLoc 1 50))))
          CK_LValueToRValue
          (DeclRefExpr
             (ex_info ex_bool VK_LValue (MacroArgLoc (FileLoc 1 57) (MacroBodyLoc (FileLoc 9 120) (FileLoc 1 50))))
             (VarDeclRef ''b'')))"

text \<open>The variables \<^verbatim>\<open>int a\<close> and \<^verbatim>\<open>int b\<close>.\<close>

definition ex_a :: Expr where
  "ex_a = DeclRefExpr (ex_info ex_int VK_LValue (FileLoc 1 60)) (VarDeclRef ''a'')"

definition ex_b :: Expr where
  "ex_b = DeclRefExpr (ex_info ex_int VK_LValue (FileLoc 1 63)) (VarDeclRef ''b'')"

text \<open>The expression \<^verbatim>\<open>a, b\<close> written in a file of the project.\<close>

definition ex_comma :: Expr where
  "ex_comma =
     BinaryOperator
       \<lparr>exprType = ex_int, exprValueKind = VK_LValue, exprLocStart = FileLoc 1 60,
         exprLoc = FileLoc 1 61, exprLocEnd = FileLoc 1 63\<rparr>
       BO_Comma (FileLoc 1 61) ex_a ex_b"

text \<open>
  Three parents for it: the parentheses of \<^verbatim>\<open>(a, b)\<close>, the for statement
  \<^verbatim>\<open>for (a, b;;) {}\<close>, and the block \<^verbatim>\<open>{ a, b; }\<close>.
\<close>

definition ex_paren_comma :: Expr where
  "ex_paren_comma = ParenExpr (ex_info ex_int VK_LValue (FileLoc 1 59)) ex_comma"

definition ex_for_comma :: Stmt where
  "ex_for_comma = ForStmt (Some (AsStmt ex_comma)) None None (CompoundStmt [])"

definition ex_compound_comma :: Stmt where
  "ex_compound_comma = CompoundStmt [AsStmt ex_comma]"

text \<open>
  The expression \<^verbatim>\<open>0, 0\<close> in the body of a macro defined in a system header
  and used in a file of the project, as the condition of a do-while statement.
\<close>

definition ex_zero :: "nat \<Rightarrow> Expr" where
  "ex_zero off =
     IntegerLiteral (ex_info ex_int VK_RValue (MacroBodyLoc (FileLoc 9 off) (FileLoc 1 70))) 0"

definition ex_comma_in_macro :: Expr where
  "ex_comma_in_macro =
     BinaryOperator
       \<lparr>exprType = ex_int, exprValueKind = VK_RValue,
         exprLocStart = MacroBodyLoc (FileLoc 9 200) (FileLoc 1 70),
         exprLoc = MacroBodyLoc (FileLoc 9 201) (FileLoc 1 70),
         exprLocEnd = MacroBodyLoc (FileLoc 9 203) (FileLoc 1 70)\<rparr>
       BO_Comma (MacroBodyLoc (FileLoc 9 201) (FileLoc 1 70)) (ex_zero 200) (ex_zero 203)"

text \<open>The context in which every statement has the given parent statement.\<close>

definition ex_parent_is :: "Stmt \<Rightarrow> PluginContext" where
  "ex_parent_is parent = ex_context\<lparr>parentStmt := (\<lambda>s. Some parent)\<rparr>"

text \<open>
  The cast \<^verbatim>\<open>(int)x\<close> from the body of a macro defined in a system header; the
  macro is used in the argument of another macro, in a file of the project.  Its
  locations are macro argument expansions, spelled in the body expansion of the first
  macro.
\<close>

definition ex_arg_of_body :: "nat \<Rightarrow> SourceLocation" where
  "ex_arg_of_body off =
     MacroArgLoc (MacroBodyLoc (FileLoc 9 off) (FileLoc 1 56))
                 (MacroBodyLoc (FileLoc 1 7) (FileLoc 1 50))"

definition ex_cstyle_in_macro_arg :: Expr where
  "ex_cstyle_in_macro_arg =
     CStyleCastExpr
       \<lparr>exprType = ex_int, exprValueKind = VK_RValue, exprLocStart = ex_arg_of_body 100,
         exprLoc = ex_arg_of_body 100, exprLocEnd = ex_arg_of_body 106\<rparr>
       ex_int ex_x_rvalue"

subsection \<open>Functions and constructors\<close>

definition ex_OUString :: QualType where
  "ex_OUString =
     QualType (RecordType \<lparr>recordName = ''OUString'', recordNamespaces = [''rtl''],
                            isCompleteDefinition = True\<rparr>) False False"

definition ex_const_OUString :: QualType where
  "ex_const_OUString =
     QualType (RecordType \<lparr>recordName = ''OUString'', recordNamespaces = [''rtl''],
                            isCompleteDefinition = True\<rparr>) True False"

definition ex_parm :: "string \<Rightarrow> nat \<Rightarrow> ParmVarDecl" where
  "ex_parm n off = \<lparr>parmName = n, parmType = ex_OUString, parmLocation = FileLoc 1 off\<rparr>"

text \<open>A reference to a parameter, written at a location.\<close>

definition ex_ref :: "ParmVarDecl \<Rightarrow> SourceLocation \<Rightarrow> Expr" where
  "ex_ref p l = DeclRefExpr (ex_info ex_OUString VK_LValue l) (ParmVarDeclRef p)"

definition ex_const_ref :: "ParmVarDecl \<Rightarrow> SourceLocation \<Rightarrow> Expr" where
  "ex_const_ref p l = ImplicitCastExpr (ex_info ex_const_OUString VK_LValue l) CK_NoOp (ex_ref p l)"

text \<open>The call \<^verbatim>\<open>std::move(p)\<close>.\<close>

definition ex_move_type :: QualType where
  "ex_move_type =
     QualType (FunctionProtoType (QualType (RValueReferenceType ex_OUString) False False)
                 [QualType (LValueReferenceType ex_OUString) False False]) False False"

definition ex_std_move :: "ParmVarDecl \<Rightarrow> SourceLocation \<Rightarrow> Expr" where
  "ex_std_move p l =
     CallExpr (ex_info ex_OUString VK_XValue l) (Some (FunctionDeclRef ''move'' [''std'']))
       (ImplicitCastExpr (ex_info (QualType (PointerType ex_move_type) False False) VK_RValue l)
          CK_FunctionToPointerDecay
          (DeclRefExpr (ex_info ex_move_type VK_LValue l) (FunctionDeclRef ''move'' [''std''])))
       [ex_ref p l]"

text \<open>A member initializer that constructs the member from one argument.\<close>

definition ex_member_init :: "Expr \<Rightarrow> SourceLocation \<Rightarrow> CXXCtorInitializer" where
  "ex_member_init arg l =
     \<lparr>isMemberInitializer = True,
       getInit = CXXConstructExpr (ex_info ex_OUString VK_RValue l) [arg]\<rparr>"

text \<open>
  The constructor
  \<^verbatim>\<open>C(OUString a, OUString b): m_a(std::move(a)), m_b(b) {}\<close>
  and the same constructor with \<^verbatim>\<open>m_a(a)\<close>.
\<close>

definition ex_constructor :: "CXXCtorInitializer list \<Rightarrow> FunctionDecl" where
  "ex_constructor is =
     \<lparr>getLocation = FileLoc 1 100, getCanonicalDeclLocation = FileLoc 1 100,
       getDeclKind = FD_CXXConstructor, isDeleted = False,
       isFunctionTemplateSpecialization = False, size_overridden_methods = 0,
       parameters = [ex_parm ''a'' 110, ex_parm ''b'' 120], defaultArguments = [],
       inits = is, getBody = Some (CompoundStmt [])\<rparr>"

definition ex_constructor_moving_a :: FunctionDecl where
  "ex_constructor_moving_a =
     ex_constructor
       [ex_member_init (ex_std_move (ex_parm ''a'' 110) (FileLoc 1 135)) (FileLoc 1 130),
        ex_member_init (ex_const_ref (ex_parm ''b'' 120) (FileLoc 1 155)) (FileLoc 1 150)]"

definition ex_constructor_copying :: FunctionDecl where
  "ex_constructor_copying =
     ex_constructor
       [ex_member_init (ex_const_ref (ex_parm ''a'' 110) (FileLoc 1 135)) (FileLoc 1 130),
        ex_member_init (ex_const_ref (ex_parm ''b'' 120) (FileLoc 1 155)) (FileLoc 1 150)]"

definition ex_initial :: PassParamsByRef where
  "ex_initial = \<lparr>mbInsideFunctionDecl = False, mParamExclusions = {}\<rparr>"

text \<open>
  Types: a vector of 32 floats (128 characters), the class \<^verbatim>\<open>rtl::OUString\<close>
  declared but not defined, and a complete class of 128 characters.
\<close>

definition ex_float_vector :: QualType where
  "ex_float_vector =
     QualType (VectorType (QualType (BuiltinType BT_Float) False False) 32) False False"

definition ex_OUString_declared :: QualType where
  "ex_OUString_declared =
     QualType (RecordType \<lparr>recordName = ''OUString'', recordNamespaces = [''rtl''],
                            isCompleteDefinition = False\<rparr>) False False"

definition ex_Big :: QualType where
  "ex_Big =
     QualType (RecordType \<lparr>recordName = ''Big'', recordNamespaces = [],
                            isCompleteDefinition = True\<rparr>) False False"

text \<open>
  The statement \<^verbatim>\<open>(p = q).isEmpty();\<close>, written in a given file.  The object
  of the member call is the assignment, converted to a const lvalue by an implicit cast.
\<close>

definition ex_assign_type :: QualType where
  "ex_assign_type =
     QualType (FunctionProtoType (QualType (LValueReferenceType ex_OUString) False False)
                 [QualType (LValueReferenceType ex_const_OUString) False False]) False False"

definition ex_assignment :: "nat \<Rightarrow> Expr" where
  "ex_assignment f =
     CXXOperatorCallExpr (ex_info ex_OUString VK_LValue (FileLoc f 11)) OO_Equal
       (Some (OtherDeclRef ''operator=''))
       (DeclRefExpr (ex_info ex_assign_type VK_LValue (FileLoc f 13))
          (OtherDeclRef ''operator=''))
       (ex_ref (ex_parm ''p'' 210) (FileLoc f 11))
       [ex_const_ref (ex_parm ''q'' 220) (FileLoc f 15)]"

definition ex_statement :: "nat \<Rightarrow> Stmt" where
  "ex_statement f =
     AsStmt
       (CallExpr (ex_info ex_bool VK_RValue (FileLoc f 10)) None
          (OtherExpr (ex_info ex_bool VK_RValue (FileLoc f 10))
             [ImplicitCastExpr (ex_info ex_const_OUString VK_LValue (FileLoc f 10)) CK_NoOp
                (ParenExpr (ex_info ex_OUString VK_LValue (FileLoc f 10)) (ex_assignment f))])
          [])"

text \<open>
  The function \<^verbatim>\<open>void f(OUString p, OUString q) { (p = q).isEmpty(); }\<close>
  defined in file 1, whose statement comes from the given file.
\<close>

definition ex_function :: "nat \<Rightarrow> FunctionDecl" where
  "ex_function f =
     \<lparr>getLocation = FileLoc 1 200, getCanonicalDeclLocation = FileLoc 1 200,
       getDeclKind = FD_Function, isDeleted = False,
       isFunctionTemplateSpecialization = False, size_overridden_methods = 0,
       parameters = [ex_parm ''p'' 210, ex_parm ''q'' 220], defaultArguments = [],
       inits = [], getBody = Some (CompoundStmt [ex_statement f])\<rparr>"

text \<open>
  A state of the plugin object whose exclusion set already holds both parameters of the
  function above.
\<close>

definition ex_after_other_function :: PassParamsByRef where
  "ex_after_other_function =
     \<lparr>mbInsideFunctionDecl = False,
       mParamExclusions = {ex_parm ''p'' 210, ex_parm ''q'' 220}\<rparr>"

section \<open>The claims about the redundant-cast plugin\<close>

subsection \<open>C1: the redundant const_cast rule\<close>

text \<open>
  C1 as stated fails.  The cast \<^verbatim>\<open>const_cast<int &&>(x)\<close> of a variable
  \<^verbatim>\<open>int x\<close> is not at an ignored location, its type is canonically the type of
  its operand and no qualifier is added or removed, yet the rule makes no report: the cast
  turns an lvalue into an xvalue.
\<close>

theorem C1_const_cast_of_equal_type_xvalue_counterexample:
  "\<not> ignoreLocationStmt ex_context (AsStmt ex_const_cast_xvalue)
   \<and> getCanonicalType (getType ex_const_cast_xvalue)
       = getCanonicalType (getType (getSubExprAsWritten ex_context ex_const_cast_xvalue))
   \<and> VisitCXXConstCastExpr ex_context ex_const_cast_xvalue = []"
  by code_simp

text \<open>
  C1, amended.  For a const_cast that is not at an ignored location: if the canonical type
  of the cast equals the canonical type of its operand as written, and the cast is not an
  xvalue unless the operand is one too, the rule makes exactly one report,
  ``redundant const_cast'', at the location of the cast; otherwise the rule makes no
  report with that message.
\<close>

theorem C1_redundant_const_cast:
  assumes "expr = CXXConstCastExpr i typeAsWritten subExpr"
    and "\<not> ignoreLocationStmt ctx (AsStmt expr)"
  shows "(if getCanonicalType (getType expr)
               = getCanonicalType (getType (getSubExprAsWritten ctx expr))
             \<and> (getValueKind expr \<noteq> VK_XValue
                  \<or> getValueKind (getSubExprAsWritten ctx expr) = VK_XValue)
          then VisitCXXConstCastExpr ctx expr
                 = [report Warning ''redundant const_cast from %0 %1 to %2 %3'' (getExprLoc expr)]
          else \<forall>d \<in> set (VisitCXXConstCastExpr ctx expr).
                 diagMessage d \<noteq> ''redundant const_cast from %0 %1 to %2 %3'')"
  using assms
  by (auto simp: isRedundantConstCast_def Let_def report_def split: option.splits prod.splits)

text \<open>
  Witness for C1: \<^verbatim>\<open>const_cast<int *>(p)\<close> for \<^verbatim>\<open>int * p\<close> is
  reported; \<^verbatim>\<open>const_cast<int *>(static_cast<int const *>(p))\<close> gets a report
  with another message only.
\<close>

theorem C1_redundant_const_cast_witness:
  "VisitCXXConstCastExpr ex_context ex_const_cast_same
     = [report Warning ''redundant const_cast from %0 %1 to %2 %3'' (FileLoc 1 30)]
   \<and> VisitCXXConstCastExpr ex_context ex_const_cast_of_static_cast
       = [report Warning ''redundant static_cast/const_cast combination from %0 via %1 to %2''
            (FileLoc 1 30)]"
proof -
  have a: "\<not> ignoreLocationStmt ex_context (AsStmt ex_const_cast_same)"
    by code_simp
  have b: "getCanonicalType (getType ex_const_cast_same)
               = getCanonicalType (getType (getSubExprAsWritten ex_context ex_const_cast_same))
             \<and> (getValueKind ex_const_cast_same \<noteq> VK_XValue
                  \<or> getValueKind (getSubExprAsWritten ex_context ex_const_cast_same) = VK_XValue)"
    by code_simp
  have c: "getExprLoc ex_const_cast_same = FileLoc 1 30"
    by code_simp
  have "VisitCXXConstCastExpr ex_context ex_const_cast_same
     = [report Warning ''redundant const_cast from %0 %1 to %2 %3'' (FileLoc 1 30)]"
    using C1_redundant_const_cast [OF ex_const_cast_same_def a] b c by simp
  moreover have "VisitCXXConstCastExpr ex_context ex_const_cast_of_static_cast
       = [report Warning ''redundant static_cast/const_cast combination from %0 via %1 to %2''
            (FileLoc 1 30)]"
    by code_simp
  ultimately show ?thesis by simp
qed

subsection \<open>C2: casts between arithmetic types\<close>

lemma guarded_cast_differs_or_kept:
  "arithmeticCastIsGuarded source target subExpr \<Longrightarrow>
     source \<noteq> target \<or> \<not> isOkToRemoveArithmeticCast source target subExpr"
  by (auto simp: arithmeticCastIsGuarded_def isOkToRemoveArithmeticCast_def)

lemma cstyle_guarded:
  assumes "arithmeticCastIsGuarded
             (getType (getSubExprAsWritten ctx (CStyleCastExpr i target subExpr))) target subExpr"
  shows "VisitCStyleCastExpr ctx (CStyleCastExpr i target subExpr) = []"
  using guarded_cast_differs_or_kept [OF assms] by (auto simp: Let_def)

lemma guarded_cast_kept:
  "arithmeticCastIsGuarded source target subExpr \<Longrightarrow>
     \<not> isOkToRemoveArithmeticCast source target subExpr"
  by (auto simp: arithmeticCastIsGuarded_def isOkToRemoveArithmeticCast_def)

lemma functional_guarded:
  assumes "arithmeticCastIsGuarded
             (getType (getSubExprAsWritten ctx (CXXFunctionalCastExpr i target subExpr)))
             target subExpr"
  shows "VisitCXXFunctionalCastExpr ctx (CXXFunctionalCastExpr i target subExpr) = []"
  using assms
  by (auto simp: Let_def arithmeticCastIsGuarded_def isOkToRemoveArithmeticCast_def)

lemma arithmetic_nonClassObjectType:
  "isIntegralType t \<or> isRealFloatingType t \<Longrightarrow>
     isObjectType t \<and> \<not> isRecordType t \<and> \<not> isArrayType t"
  by (auto simp: isIntegralType_def isRealFloatingType_def isObjectType_def isRecordType_def
      isArrayType_def isFunctionType_def isReferenceType_def isVoidType_def isIntegralKind_def
      split: Type.splits)

lemma static_guarded:
  assumes "arithmeticCastIsGuarded
             (getType (getSubExprAsWritten ctx (CXXStaticCastExpr i target subExpr)))
             target subExpr"
  shows "\<exists>ds. VisitCXXStaticCastExpr ctx (CXXStaticCastExpr i target subExpr) = Some ds
              \<and> ds = (if \<not> ignoreLocationStmt ctx (AsStmt (CXXStaticCastExpr i target subExpr))
                          \<and> hasLocalQualifiers target
                       then [report Warning
                               (''in static_cast from %0 %1 to %2 %3, remove redundant top-level''
                                @ '' %select{const qualifier|volatile qualifier|const volatile''
                                @ '' qualifiers}4'')
                               (getExprLoc (CXXStaticCastExpr i target subExpr))]
                       else [])
              \<and> (\<forall>d \<in> set ds. diagMessage d
                     \<noteq> ''static_cast from %0 %1 to %2 %3 is redundant%select{| or should be''
                        @ '' written as an explicit construction of a temporary}4'')"
proof -
  have "isIntegralType target \<or> isRealFloatingType target"
    using assms by (simp add: arithmeticCastIsGuarded_def)
  from arithmetic_nonClassObjectType [OF this] guarded_cast_kept [OF assms]
  show ?thesis
    by (simp add: Let_def report_def)
qed

text \<open>
  C2.  For a C-style cast, a functional cast and a static_cast between arithmetic types
  (source: the type of the operand as written; target: the type as written), when either
  type is a typedef differing from the other, or the operand is an arithmetic operation,
  or the operand is an integer literal: the C-style and the functional rule make no report,
  and the static_cast rule returns without the report that the cast is redundant.  The
  only report the static_cast rule can make in this situation is the one about a redundant
  top-level qualifier of the target type as written, which it makes before it looks at the operand.
\<close>

theorem C2_guarded_arithmetic_cast:
  "(arithmeticCastIsGuarded
      (getType (getSubExprAsWritten ctx (CStyleCastExpr i target subExpr))) target subExpr
    \<longrightarrow> VisitCStyleCastExpr ctx (CStyleCastExpr i target subExpr) = [])
   \<and> (arithmeticCastIsGuarded
         (getType (getSubExprAsWritten ctx (CXXFunctionalCastExpr i target subExpr)))
         target subExpr
       \<longrightarrow> VisitCXXFunctionalCastExpr ctx (CXXFunctionalCastExpr i target subExpr) = [])
   \<and> (arithmeticCastIsGuarded
         (getType (getSubExprAsWritten ctx (CXXStaticCastExpr i target subExpr)))
         target subExpr
       \<longrightarrow> (\<exists>ds. VisitCXXStaticCastExpr ctx (CXXStaticCastExpr i target subExpr) = Some ds
              \<and> ds = (if \<not> ignoreLocationStmt ctx (AsStmt (CXXStaticCastExpr i target subExpr))
                          \<and> hasLocalQualifiers target
                       then [report Warning
                               (''in static_cast from %0 %1 to %2 %3, remove redundant top-level''
                                @ '' %select{const qualifier|volatile qualifier|const volatile''
                                @ '' qualifiers}4'')
                               (getExprLoc (CXXStaticCastExpr i target subExpr))]
                       else [])
              \<and> (\<forall>d \<in> set ds. diagMessage d
                     \<noteq> ''static_cast from %0 %1 to %2 %3 is redundant%select{| or should be''
                        @ '' written as an explicit construction of a temporary}4'')))"
  using cstyle_guarded [of ctx i target subExpr] functional_guarded [of ctx i target subExpr]
    static_guarded [of ctx i target subExpr]
  by blast

text \<open>
  Witness for C2: \<^verbatim>\<open>(int)5\<close>, \<^verbatim>\<open>int(5)\<close> and
  \<^verbatim>\<open>static_cast<int>(5)\<close> are not reported, while
  \<^verbatim>\<open>static_cast<int>(x)\<close> of an \<^verbatim>\<open>int x\<close> is.
\<close>

theorem C2_guarded_arithmetic_cast_witness:
  "VisitCStyleCastExpr ex_context
      (CStyleCastExpr (ex_info ex_int VK_RValue (FileLoc 1 10)) ex_int ex_five) = []
   \<and> VisitCXXFunctionalCastExpr ex_context
      (CXXFunctionalCastExpr (ex_info ex_int VK_RValue (FileLoc 1 10)) ex_int ex_five) = []
   \<and> VisitCXXStaticCastExpr ex_context
      (CXXStaticCastExpr (ex_info ex_int VK_RValue (FileLoc 1 10)) ex_int ex_five) = Some []
   \<and> VisitCXXStaticCastExpr ex_context
      (CXXStaticCastExpr (ex_info ex_int VK_RValue (FileLoc 1 10)) ex_int ex_x_rvalue)
       = Some [report Warning
                 (''static_cast from %0 %1 to %2 %3 is redundant%select{| or should be''
                  @ '' written as an explicit construction of a temporary}4'')
                 (FileLoc 1 10)]"
proof -
  have g: "arithmeticCastIsGuarded ex_int ex_int ex_five"
    by code_simp
  have s: "getType (getSubExprAsWritten ex_context
             (CStyleCastExpr (ex_info ex_int VK_RValue (FileLoc 1 10)) ex_int ex_five)) = ex_int"
      "getType (getSubExprAsWritten ex_context
             (CXXFunctionalCastExpr (ex_info ex_int VK_RValue (FileLoc 1 10)) ex_int ex_five)) = ex_int"
      "getType (getSubExprAsWritten ex_context
             (CXXStaticCastExpr (ex_info ex_int VK_RValue (FileLoc 1 10)) ex_int ex_five)) = ex_int"
    by (simp_all add: ex_context_def ex_five_def getType_def ex_info_def)
  have a: "VisitCXXStaticCastExpr ex_context
      (CXXStaticCastExpr (ex_info ex_int VK_RValue (FileLoc 1 10)) ex_int ex_five) = Some []"
    by code_simp
  have b: "VisitCXXStaticCastExpr ex_context
      (CXXStaticCastExpr (ex_info ex_int VK_RValue (FileLoc 1 10)) ex_int ex_x_rvalue)
       = Some [report Warning
                 (''static_cast from %0 %1 to %2 %3 is redundant%select{| or should be''
                  @ '' written as an explicit construction of a temporary}4'')
                 (FileLoc 1 10)]"
    by code_simp
  show ?thesis
    using C2_guarded_arithmetic_cast [of ex_context "ex_info ex_int VK_RValue (FileLoc 1 10)"
        ex_int ex_five] g s a b
    by simp
qed

subsection \<open>C3: suppression inside macro bodies\<close>

text \<open>
  C3 as stated fails for the C-style cast.  The start location of the cast below is a macro
  argument expansion, not a macro body expansion, and the cast is not at an ignored
  location; yet it is not reported, although the same cast written outside any macro is.
  The rule first leaves the macro argument expansions of its three locations.
\<close>

theorem C3_macro_argument_expansion_counterexample:
  "\<not> isMacroBodyExpansion (getLocStart ex_cstyle_in_macro_arg)
   \<and> \<not> ignoreLocationStmt ex_context (AsStmt ex_cstyle_in_macro_arg)
   \<and> ignoreLocation ex_context
         (getSpellingLoc (skipMacroArgExpansions (getExprLoc ex_cstyle_in_macro_arg)))
   \<and> VisitCStyleCastExpr ex_context ex_cstyle_in_macro_arg = []
   \<and> VisitCStyleCastExpr ex_context (ex_cstyle_int_x (FileLoc 1 10))
       = [report Warning ''redundant cstyle cast from %0 to %1'' (FileLoc 1 10)]"
  by code_simp

text \<open>The two rules, each with the conditions under which it would report.\<close>

lemma comma_macro_policy:
  assumes "binaryOp = BinaryOperator i BO_Comma operatorLoc lhs rhs"
    and "\<not> ignoreLocationStmt ctx (AsStmt binaryOp)"
    and "\<not> inAcceptedPosition ctx (AsStmt binaryOp)"
    and "cleanupWrapperHasParent ctx (AsStmt binaryOp)"
  shows "VisitBinaryOperator ctx binaryOp =
          (if isMacroBodyExpansion (getLocStart binaryOp)
              \<and> isMacroBodyExpansion operatorLoc
              \<and> isMacroBodyExpansion (getLocEnd binaryOp)
              \<and> ignoreLocation ctx (getSpellingLoc operatorLoc)
           then Some []
           else Some [report Warning ''comma operator hides code'' operatorLoc])"
  using assms
  by (auto simp: Let_def inAcceptedPosition_def cleanupWrapperHasParent_def
      split: option.splits)

lemma cstyle_macro_policy:
  assumes "expr = CStyleCastExpr j typeAsWritten subExpr"
    and "\<not> ignoreLocationStmt ctx (AsStmt expr)"
    and "\<not> isInUnoIncludeFile ctx (getSpellingLoc (getLocStart expr))"
    and "getType (getSubExprAsWritten ctx expr) = typeAsWritten"
    and "isBuiltinType typeAsWritten \<or> TypeCheck_Enum typeAsWritten
            \<or> TypeCheck_Typedef typeAsWritten"
    and "isOkToRemoveArithmeticCast typeAsWritten typeAsWritten subExpr"
  shows "VisitCStyleCastExpr ctx expr =
             (if isMacroBodyExpansion (skipMacroArgExpansions (getLocStart expr))
                 \<and> isMacroBodyExpansion (skipMacroArgExpansions (getExprLoc expr))
                 \<and> isMacroBodyExpansion (skipMacroArgExpansions (getLocEnd expr))
                 \<and> ignoreLocation ctx
                      (getSpellingLoc (skipMacroArgExpansions (getExprLoc expr)))
              then []
              else [report Warning ''redundant cstyle cast from %0 to %1'' (getExprLoc expr)])"
  using assms by (auto simp: Let_def)

text \<open>
  C3, amended.  A comma operator that would be reported (not at an ignored location, not
  in an accepted position, in a syntax tree where a cleanup wrapper has a parent
  statement) is suppressed if and only if its start, operator and end
  locations are all macro body expansions and the spelling location of the operator is
  ignored.  A C-style cast that would be reported (not ignored, not in a UNO include file,
  source and target type identical as written, of builtin, enum or typedef type, with
  \<^verbatim>\<open>isOkToRemoveArithmeticCast\<close> true) is suppressed if and only if its start, expression and end
  locations, each taken out of the macro argument expansions it is in, are all macro body
  expansions and the spelling location of the expression location so resolved is ignored.
  In both rules a pattern that fails one of the conjuncts is reported.
\<close>

theorem C3_macro_body_suppression:
  "(binaryOp = BinaryOperator i BO_Comma operatorLoc lhs rhs
    \<and> \<not> ignoreLocationStmt ctx (AsStmt binaryOp)
    \<and> \<not> inAcceptedPosition ctx (AsStmt binaryOp)
    \<and> cleanupWrapperHasParent ctx (AsStmt binaryOp)
    \<longrightarrow> VisitBinaryOperator ctx binaryOp =
          (if isMacroBodyExpansion (getLocStart binaryOp)
              \<and> isMacroBodyExpansion operatorLoc
              \<and> isMacroBodyExpansion (getLocEnd binaryOp)
              \<and> ignoreLocation ctx (getSpellingLoc operatorLoc)
           then Some []
           else Some [report Warning ''comma operator hides code'' operatorLoc]))
   \<and> (expr = CStyleCastExpr j typeAsWritten subExpr
       \<and> \<not> ignoreLocationStmt ctx (AsStmt expr)
       \<and> \<not> isInUnoIncludeFile ctx (getSpellingLoc (getLocStart expr))
       \<and> getType (getSubExprAsWritten ctx expr) = typeAsWritten
       \<and> (isBuiltinType typeAsWritten \<or> TypeCheck_Enum typeAsWritten
            \<or> TypeCheck_Typedef typeAsWritten)
       \<and> isOkToRemoveArithmeticCast typeAsWritten typeAsWritten subExpr
       \<longrightarrow> VisitCStyleCastExpr ctx expr =
             (if isMacroBodyExpansion (skipMacroArgExpansions (getLocStart expr))
                 \<and> isMacroBodyExpansion (skipMacroArgExpansions (getExprLoc expr))
                 \<and> isMacroBodyExpansion (skipMacroArgExpansions (getLocEnd expr))
                 \<and> ignoreLocation ctx
                      (getSpellingLoc (skipMacroArgExpansions (getExprLoc expr)))
              then []
              else [report Warning ''redundant cstyle cast from %0 to %1'' (getExprLoc expr)]))"
  using comma_macro_policy [of binaryOp i operatorLoc lhs rhs ctx]
    cstyle_macro_policy [of expr j typeAsWritten subExpr ctx]
  by blast


text \<open>
  Witness for C3: \<^verbatim>\<open>0, 0\<close> from the body of a macro of a system header is
  suppressed, \<^verbatim>\<open>a, b\<close> written in the project is reported; the cast from a
  macro body that reaches the project through a macro argument is suppressed, the same
  cast written in the project is reported.
\<close>

theorem C3_macro_body_suppression_witness:
  "VisitBinaryOperator (ex_parent_is (OtherStmt [])) ex_comma_in_macro = Some []
   \<and> VisitBinaryOperator (ex_parent_is (OtherStmt [])) ex_comma
       = Some [report Warning ''comma operator hides code'' (FileLoc 1 61)]
   \<and> VisitCStyleCastExpr (ex_parent_is (OtherStmt [])) ex_cstyle_in_macro_arg = []
   \<and> VisitCStyleCastExpr (ex_parent_is (OtherStmt [])) (ex_cstyle_int_x (FileLoc 1 10))
       = [report Warning ''redundant cstyle cast from %0 to %1'' (FileLoc 1 10)]"
proof -
  let ?ctx = "ex_parent_is (OtherStmt [])"
  have c: "\<not> ignoreLocationStmt ?ctx (AsStmt e)
      \<and> \<not> inAcceptedPosition ?ctx (AsStmt e)
      \<and> cleanupWrapperHasParent ?ctx (AsStmt e)"
    if "e = ex_comma_in_macro \<or> e = ex_comma" for e
    using that
    by (auto simp: ex_parent_is_def ex_context_def ex_comma_in_macro_def ex_comma_def
        getLocStart_def inAcceptedPosition_def cleanupWrapperHasParent_def)
  have m: "isMacroBodyExpansion (getLocStart ex_comma_in_macro)
              \<and> isMacroBodyExpansion (MacroBodyLoc (FileLoc 9 201) (FileLoc 1 70))
              \<and> isMacroBodyExpansion (getLocEnd ex_comma_in_macro)
              \<and> ignoreLocation ?ctx
                   (getSpellingLoc (MacroBodyLoc (FileLoc 9 201) (FileLoc 1 70)))"
    "\<not> isMacroBodyExpansion (getLocStart ex_comma)"
    by (simp_all add: ex_parent_is_def ex_context_def ex_comma_in_macro_def ex_comma_def
        getLocStart_def getLocEnd_def)
  have k: "\<not> ignoreLocationStmt ?ctx (AsStmt e)
       \<and> \<not> isInUnoIncludeFile ?ctx (getSpellingLoc (getLocStart e))
       \<and> getType (getSubExprAsWritten ?ctx e) = ex_int
       \<and> (isBuiltinType ex_int \<or> TypeCheck_Enum ex_int \<or> TypeCheck_Typedef ex_int)
       \<and> isOkToRemoveArithmeticCast ex_int ex_int ex_x_rvalue"
    if "e = ex_cstyle_in_macro_arg \<or> e = ex_cstyle_int_x (FileLoc 1 10)" for e
    using that by (elim disjE; hypsubst) code_simp+
  have l: "isMacroBodyExpansion (skipMacroArgExpansions (getLocStart ex_cstyle_in_macro_arg))
                 \<and> isMacroBodyExpansion (skipMacroArgExpansions (getExprLoc ex_cstyle_in_macro_arg))
                 \<and> isMacroBodyExpansion (skipMacroArgExpansions (getLocEnd ex_cstyle_in_macro_arg))
                 \<and> ignoreLocation ?ctx
                      (getSpellingLoc (skipMacroArgExpansions (getExprLoc ex_cstyle_in_macro_arg)))"
     "\<not> isMacroBodyExpansion (skipMacroArgExpansions (getLocStart (ex_cstyle_int_x (FileLoc 1 10))))"
     "getExprLoc (ex_cstyle_int_x (FileLoc 1 10)) = FileLoc 1 10"
    by code_simp+
  have 1: "VisitBinaryOperator ?ctx ex_comma_in_macro = Some []
           \<and> VisitCStyleCastExpr ?ctx ex_cstyle_in_macro_arg = []"
    using C3_macro_body_suppression [where binaryOp = ex_comma_in_macro and ctx = ?ctx
        and expr = ex_cstyle_in_macro_arg and typeAsWritten = ex_int and subExpr = ex_x_rvalue]
      c [of ex_comma_in_macro] m k [of ex_cstyle_in_macro_arg] l
    by (simp add: ex_comma_in_macro_def ex_cstyle_in_macro_arg_def)
  have 2: "VisitBinaryOperator ?ctx ex_comma
             = Some [report Warning ''comma operator hides code'' (FileLoc 1 61)]
           \<and> VisitCStyleCastExpr ?ctx (ex_cstyle_int_x (FileLoc 1 10))
             = [report Warning ''redundant cstyle cast from %0 to %1'' (FileLoc 1 10)]"
    using C3_macro_body_suppression [where binaryOp = ex_comma and ctx = ?ctx
        and expr = "ex_cstyle_int_x (FileLoc 1 10)" and typeAsWritten = ex_int
        and subExpr = ex_x_rvalue]
      c [of ex_comma] m k [of "ex_cstyle_int_x (FileLoc 1 10)"] l
    by (simp add: ex_comma_def ex_cstyle_int_x_def)
  from 1 2 show ?thesis by simp
qed

subsection \<open>C9: static_cast to bool in the expansion of assert\<close>

text \<open>A type with a pointer type behind its typedefs is canonically a pointer type.\<close>

lemma getAsPointerTypePtr_canonical:
  "getAsPointerTypePtr t = Some p \<Longrightarrow>
     \<exists>p'. getTypePtr (getCanonicalTypeInternal t) = PointerType p'"
proof (induction t arbitrary: p rule: getAsPointerTypePtr.induct)
  case (2 n t c v)
  then obtain p' where "getTypePtr (getCanonicalTypeInternal t) = PointerType p'"
    by auto
  then show ?case
    by (cases "getCanonicalTypeInternal t") auto
qed simp_all

lemma getAsPointerType_isPointerType:
  "getAsPointerType q = Some p \<Longrightarrow> isPointerType q"
proof -
  assume a: "getAsPointerType q = Some p"
  obtain t c v where q: "q = QualType t c v" by (cases q)
  with a obtain p' where "getTypePtr (getCanonicalTypeInternal t) = PointerType p'"
    using getAsPointerTypePtr_canonical [of t p] by (auto simp: getAsPointerType_def)
  then show ?thesis
    using q by (cases "getCanonicalTypeInternal t") (auto simp: isPointerType_def getCanonicalTypePtr_def)
qed

lemma voidPointerTypedefMismatch_not_pointer:
  "\<not> isPointerType t1 \<Longrightarrow> voidPointerTypedefMismatch t1 t2 = Some False"
  using getAsPointerType_isPointerType [of t1]
  by (auto simp: voidPointerTypedefMismatch_def TypeCheck_Pointer_NonConstVolatile_Void_def
      split: option.splits)

lemma boolean_not_pointer: "isBooleanType t \<Longrightarrow> \<not> isPointerType t"
  by (simp add: isBooleanType_def isPointerType_def)

text \<open>
  C9.  A static_cast whose operand as written and whose type as written are both boolean,
  and whose start location is a macro body expansion of a macro named assert, is never
  reported as redundant: the rule returns, and none of its reports is the one that the
  cast is redundant.
\<close>

theorem C9_static_cast_bool_in_assert:
  assumes "expr = CXXStaticCastExpr i typeAsWritten subExpr"
    and "isBooleanType (getType (getSubExprAsWritten ctx expr))"
    and "isBooleanType typeAsWritten"
    and "isMacroBodyExpansion (getLocStart expr)"
    and "getImmediateMacroName ctx (getLocStart expr) = ''assert''"
  shows "\<exists>ds. VisitCXXStaticCastExpr ctx expr = Some ds
              \<and> (\<forall>d \<in> set ds. diagMessage d
                     \<noteq> ''static_cast from %0 %1 to %2 %3 is redundant%select{| or should be''
                        @ '' written as an explicit construction of a temporary}4'')"
  using assms
    voidPointerTypedefMismatch_not_pointer [OF boolean_not_pointer, of
      "getType (getSubExprAsWritten ctx expr)" typeAsWritten]
  by (simp add: Let_def report_def)

text \<open>
  Witness for C9: \<^verbatim>\<open>static_cast<bool>(b)\<close> from the body of assert is not
  reported; the same cast from the body of a macro with another name is.
\<close>

theorem C9_static_cast_bool_in_assert_witness:
  "VisitCXXStaticCastExpr ex_context ex_static_cast_bool = Some []
   \<and> VisitCXXStaticCastExpr (ex_context\<lparr>getImmediateMacroName := (\<lambda>l. ''CHECK'')\<rparr>)
         ex_static_cast_bool
       = Some [report Warning
                 (''static_cast from %0 %1 to %2 %3 is redundant%select{| or should be''
                  @ '' written as an explicit construction of a temporary}4'')
                 (MacroBodyLoc (FileLoc 9 100) (FileLoc 1 50))]"
proof -
  have h: "isBooleanType (getType (getSubExprAsWritten ex_context ex_static_cast_bool))"
      "isBooleanType ex_bool"
      "isMacroBodyExpansion (getLocStart ex_static_cast_bool)"
      "getImmediateMacroName ex_context (getLocStart ex_static_cast_bool) = ''assert''"
    by code_simp+
  have a: "VisitCXXStaticCastExpr ex_context ex_static_cast_bool = Some []"
    by code_simp
  have b: "VisitCXXStaticCastExpr (ex_context\<lparr>getImmediateMacroName := (\<lambda>l. ''CHECK'')\<rparr>)
         ex_static_cast_bool
       = Some [report Warning
                 (''static_cast from %0 %1 to %2 %3 is redundant%select{| or should be''
                  @ '' written as an explicit construction of a temporary}4'')
                 (MacroBodyLoc (FileLoc 9 100) (FileLoc 1 50))]"
    by code_simp
  show ?thesis
    using C9_static_cast_bool_in_assert [OF ex_static_cast_bool_def h] a b by simp
qed

subsection \<open>C10: C-style casts in UNO include files\<close>

text \<open>
  C10.  A C-style cast whose start location is spelled inside a UNO include file is never
  reported as a redundant cstyle cast (the rule makes no report at all for it), whatever
  its types are.
\<close>

theorem C10_cstyle_cast_in_uno_include_file:
  "isInUnoIncludeFile ctx (getSpellingLoc (getLocStart expr)) \<Longrightarrow>
     VisitCStyleCastExpr ctx expr = []"
  by (cases expr) (simp_all add: Let_def)

text \<open>
  Witness for C10: the cast \<^verbatim>\<open>(int)x\<close> of an \<^verbatim>\<open>int x\<close> is
  reported when it is written in a file of the project, and is not reported when it is
  written in a UNO include file.
\<close>

theorem C10_cstyle_cast_in_uno_include_file_witness:
  "isInUnoIncludeFile ex_context (getSpellingLoc (getLocStart (ex_cstyle_int_x (FileLoc 5 10))))
   \<and> VisitCStyleCastExpr ex_context (ex_cstyle_int_x (FileLoc 5 10)) = []
   \<and> VisitCStyleCastExpr ex_context (ex_cstyle_int_x (FileLoc 1 10))
       = [report Warning ''redundant cstyle cast from %0 to %1'' (FileLoc 1 10)]"
proof -
  have uno: "isInUnoIncludeFile ex_context
               (getSpellingLoc (getLocStart (ex_cstyle_int_x (FileLoc 5 10))))"
    by code_simp
  have "VisitCStyleCastExpr ex_context (ex_cstyle_int_x (FileLoc 1 10))
          = [report Warning ''redundant cstyle cast from %0 to %1'' (FileLoc 1 10)]"
    by code_simp
  with uno C10_cstyle_cast_in_uno_include_file [OF uno] show ?thesis by simp
qed

section \<open>The claims about the comma-operator plugin\<close>

subsection \<open>C7: accepted positions of the comma operator\<close>

text \<open>
  C7.  For a comma operator that is not at an ignored location and not suppressed by the
  macro policy, in a syntax tree where a cleanup wrapper has a parent statement: if its
  parent statement is a parenthesized expression, a binary operator, a for statement, or a
  cleanup wrapper whose parent is a for statement, nothing is reported; otherwise exactly
  one warning ``comma operator hides code'' is reported, at the location of the operator.
\<close>

theorem C7_comma_operator_position:
  assumes "binaryOp = BinaryOperator i BO_Comma operatorLoc lhs rhs"
    and "\<not> ignoreLocationStmt ctx (AsStmt binaryOp)"
    and "\<not> (isMacroBodyExpansion (getLocStart binaryOp)
             \<and> isMacroBodyExpansion operatorLoc
             \<and> isMacroBodyExpansion (getLocEnd binaryOp)
             \<and> ignoreLocation ctx (getSpellingLoc operatorLoc))"
    and "cleanupWrapperHasParent ctx (AsStmt binaryOp)"
  shows "VisitBinaryOperator ctx binaryOp =
           (if inAcceptedPosition ctx (AsStmt binaryOp) then Some []
            else Some [report Warning ''comma operator hides code'' operatorLoc])"
  using assms
  by (auto simp: Let_def inAcceptedPosition_def cleanupWrapperHasParent_def
      split: option.splits)

text \<open>
  Witness for C7: \<^verbatim>\<open>a, b\<close> as the initialization of a for statement and
  inside parentheses is not reported; as a statement of a block it is reported once.
\<close>

theorem C7_comma_operator_position_witness:
  "VisitBinaryOperator (ex_parent_is ex_for_comma) ex_comma = Some []
   \<and> VisitBinaryOperator (ex_parent_is (AsStmt ex_paren_comma)) ex_comma = Some []
   \<and> VisitBinaryOperator (ex_parent_is ex_compound_comma) ex_comma
       = Some [report Warning ''comma operator hides code'' (FileLoc 1 61)]"
proof -
  have h: "\<not> ignoreLocationStmt (ex_parent_is p) (AsStmt ex_comma)"
      "\<not> (isMacroBodyExpansion (getLocStart ex_comma)
             \<and> isMacroBodyExpansion (FileLoc 1 61)
             \<and> isMacroBodyExpansion (getLocEnd ex_comma)
             \<and> ignoreLocation (ex_parent_is p) (getSpellingLoc (FileLoc 1 61)))" for p
    by (simp_all add: ex_parent_is_def ex_context_def ex_comma_def getLocStart_def)
  have w: "cleanupWrapperHasParent (ex_parent_is p) (AsStmt ex_comma)" for p
    by (simp add: cleanupWrapperHasParent_def ex_parent_is_def)
  have a: "inAcceptedPosition (ex_parent_is ex_for_comma) (AsStmt ex_comma)"
      "inAcceptedPosition (ex_parent_is (AsStmt ex_paren_comma)) (AsStmt ex_comma)"
      "\<not> inAcceptedPosition (ex_parent_is ex_compound_comma) (AsStmt ex_comma)"
    by (simp_all add: inAcceptedPosition_def ex_parent_is_def ex_for_comma_def
        ex_paren_comma_def ex_compound_comma_def)
  show ?thesis
    using C7_comma_operator_position [OF ex_comma_def h w, of ex_for_comma]
      C7_comma_operator_position [OF ex_comma_def h w, of "AsStmt ex_paren_comma"]
      C7_comma_operator_position [OF ex_comma_def h w, of ex_compound_comma] a
    by simp
qed

section \<open>The claims about the pass-parameters-by-reference plugin\<close>

text \<open>
  The two cases of \<^verbatim>\<open>TraverseFunctionDecl\<close>: a function that passes the
  tests at its head is traversed from a cleared exclusion set and then checked; any other
  function is skipped.
\<close>

lemma TraverseFunctionDecl_checked:
  "functionIsChecked ctx functionDecl \<Longrightarrow>
     TraverseFunctionDecl ctx st functionDecl =
       (let st3 = (foldl WalkUpFrom \<lparr>mbInsideFunctionDecl = True, mParamExclusions = {}\<rparr>
                     (traversedFunctionDecl ctx functionDecl))
                  \<lparr>mbInsideFunctionDecl := False\<rparr>
        in (concat (map (checkParam ctx st3 functionDecl) (parameters functionDecl)), st3))"
  by (cases st) (auto simp: TraverseFunctionDecl_def functionIsChecked_def Let_def)

lemma TraverseFunctionDecl_not_checked:
  "\<not> functionIsChecked ctx functionDecl \<Longrightarrow>
     TraverseFunctionDecl ctx st functionDecl = ([], st)"
  by (auto simp: TraverseFunctionDecl_def functionIsChecked_def)

subsection \<open>C4: parameters moved in a member initializer\<close>

text \<open>
  C4 holds for the parameter that is moved, and fails for the other parameters of the
  constructor.  In a run of the plugin the constructors
  \<^verbatim>\<open>C(OUString a, OUString b): m_a(std::move(a)), m_b(b) {}\<close> and
  \<^verbatim>\<open>C(OUString a, OUString b): m_a(a), m_b(b) {}\<close>
  get no report at all, although the claim expects one for \<^verbatim>\<open>b\<close> (and, in
  the second, for \<^verbatim>\<open>a\<close>): a constructor never reaches the override in which
  the parameters are checked.  The plain function
  \<^verbatim>\<open>void f(OUString p, OUString q) { (p = q).isEmpty(); }\<close>
  gets its report for \<^verbatim>\<open>q\<close>.
\<close>

theorem C4_constructor_parameters_not_reported:
  "fst (TraverseDecl ex_context ex_initial ex_constructor_moving_a) = []
   \<and> fst (TraverseDecl ex_context ex_initial ex_constructor_copying) = []
   \<and> fst (TraverseDecl ex_context ex_initial (ex_function 1))
       = [report Warning ''passing %0 by value, rather pass by const lvalue reference''
            (FileLoc 1 220)]"
  by code_simp

text \<open>In a run of the plugin, reports are made for plain functions only.\<close>

lemma TraverseDecl_reports_plain_functions_only:
  "getDeclKind functionDecl \<noteq> FD_Function \<Longrightarrow> fst (TraverseDecl ctx st functionDecl) = []"
  by (simp add: TraverseDecl_def)

text \<open>
  The part of \<^verbatim>\<open>TraverseFunctionDecl\<close> that is written for constructors has a
  defect of its own, which would show if the override were run on a constructor: the
  search for a move looks at the initializers only, never at the parameter it is made for,
  so one member initialized from a call of \<^verbatim>\<open>std::move\<close> exempts every
  parameter of the constructor.
\<close>

lemma bFoundMove_exempts_every_parameter:
  assumes "isa_CXXConstructorDecl functionDecl" and "bFoundMove (inits functionDecl)"
  shows "fst (TraverseFunctionDecl ctx st functionDecl) = []"
  using assms by (auto simp: TraverseFunctionDecl_def checkParam_def Let_def)

lemma override_on_constructor_examples:
  "fst (TraverseFunctionDecl ex_context ex_initial ex_constructor_moving_a) = []
   \<and> fst (TraverseFunctionDecl ex_context ex_initial ex_constructor_copying)
       = [report Warning ''passing %0 by value, rather pass by const lvalue reference''
            (FileLoc 1 110),
          report Warning ''passing %0 by value, rather pass by const lvalue reference''
            (FileLoc 1 120)]"
  by code_simp

subsection \<open>C5: fat types\<close>

text \<open>
  C5 as stated fails in both directions.  A vector of 32 floats is a complete object type
  of 128 characters, yet it is not fat, because it is not a record type.  The class
  \<^verbatim>\<open>rtl::OUString\<close>, declared but not defined, is an incomplete type, yet it
  is fat, because the allow-list is consulted before the test for completeness.
\<close>

theorem C5_isFat_counterexample:
  "isObjectType ex_float_vector
   \<and> \<not> isIncompleteType ex_float_vector
   \<and> 64 < getTypeSizeInChars ex_context (getTypePtr ex_float_vector)
   \<and> \<not> isFat ex_context ex_float_vector
   \<and> isIncompleteType ex_OUString_declared
   \<and> isFat ex_context ex_OUString_declared"
  by (simp add: ex_float_vector_def ex_OUString_declared_def ex_context_def isObjectType_def
      isFunctionType_def isReferenceType_def isVoidType_def getCanonicalTypePtr_def
      isIncompleteType_def isFat_def isRecordType_def TypeCheck_Class_def)

text \<open>
  C5, amended.  A type is fat if and only if it is a record type that is on the
  allow-list (by name and namespaces) or is complete and larger than 64 characters.
  So a type that is not a record type is never fat, and an incomplete type is fat
  exactly when it is on the allow-list.
\<close>

theorem C5_isFat:
  "isFat ctx T \<longleftrightarrow>
     (\<exists>d. getCanonicalTypePtr T = RecordType d
          \<and> ((recordName d, recordNamespaces d)
                \<in> {(''Reference'', [''uno'', ''star'', ''sun'', ''com'']),
                    (''Sequence'', [''uno'', ''star'', ''sun'', ''com'']),
                    (''OString'', [''rtl'']),
                    (''OUString'', [''rtl'']),
                    (''Reference'', [''rtl''])}
              \<or> (\<not> isIncompleteType T \<and> 64 < getTypeSizeInChars ctx (getTypePtr T))))"
  by (auto simp: isFat_def isRecordType_def TypeCheck_Class_def split: Type.splits)

text \<open>
  Witness for C5: a complete class of 128 characters is fat, \<^verbatim>\<open>int\<close> is not.
\<close>

theorem C5_isFat_witness:
  "isFat ex_context ex_Big \<and> \<not> isFat ex_context ex_int"
proof -
  have "getCanonicalTypePtr ex_Big = RecordType \<lparr>recordName = ''Big'', recordNamespaces = [],
                            isCompleteDefinition = True\<rparr>"
    by (simp add: ex_Big_def getCanonicalTypePtr_def)
  moreover have "\<not> isIncompleteType ex_Big \<and> 64 < getTypeSizeInChars ex_context (getTypePtr ex_Big)"
    by (simp add: ex_Big_def ex_context_def isIncompleteType_def)
  moreover have "getCanonicalTypePtr ex_int = BuiltinType BT_Int"
    by (simp add: ex_int_def getCanonicalTypePtr_def)
  ultimately show ?thesis
    using C5_isFat [of ex_context ex_Big] C5_isFat [of ex_context ex_int] by simp
qed

subsection \<open>C6: parameters that are assigned to\<close>

text \<open>
  C6 as stated fails.  In
  \<^verbatim>\<open>void f(OUString p, OUString q) { (p = q).isEmpty(); }\<close>
  the parameter \<^verbatim>\<open>p\<close> is the first operand of an overloaded assignment.
  When the statement comes from an ignored file (included into the body of the function,
  which is itself in a file of the project), the implicit cast around the assignment is at
  an ignored location, the traversal does not go below it, and \<^verbatim>\<open>p\<close> is
  reported.  When the statement is written in the project, \<^verbatim>\<open>p\<close> is not
  reported.
\<close>

theorem C6_assignment_below_ignored_cast_counterexample:
  "functionIsChecked ex_context (ex_function 9)
   \<and> assignsToParameter (ex_assignment 9) (ex_parm ''p'' 210)
   \<and> ex_assignment 9 \<notin> set (traversedFunctionDecl ex_context (ex_function 9))
   \<and> ex_assignment 1 \<in> set (traversedFunctionDecl ex_context (ex_function 1))
   \<and> fst (TraverseFunctionDecl ex_context ex_initial (ex_function 9))
       = [report Warning ''passing %0 by value, rather pass by const lvalue reference''
            (FileLoc 1 210),
          report Warning ''passing %0 by value, rather pass by const lvalue reference''
            (FileLoc 1 220)]
   \<and> fst (TraverseFunctionDecl ex_context ex_initial (ex_function 1))
       = [report Warning ''passing %0 by value, rather pass by const lvalue reference''
            (FileLoc 1 220)]"
  by code_simp

text \<open>The callbacks keep the flag and only add to the exclusion set.\<close>

lemma WalkUpFrom_flag: "mbInsideFunctionDecl (WalkUpFrom st e) = mbInsideFunctionDecl st"
  by (cases e) (auto split: Expr.splits ValueDecl.splits)


lemma WalkUpFrom_mono: "mParamExclusions st \<subseteq> mParamExclusions (WalkUpFrom st e)"
  by (cases e) (auto split: Expr.splits ValueDecl.splits)

lemma WalkUpFrom_records:
  "mbInsideFunctionDecl st \<Longrightarrow> assignsToParameter e p \<Longrightarrow>
     p \<in> mParamExclusions (WalkUpFrom st e)"
proof (cases e)
  case (BinaryOperator i opc l lhs rhs)
  assume "mbInsideFunctionDecl st" "assignsToParameter e p"
  with BinaryOperator show ?thesis
    by (cases "(lhs, p)" rule: refersToParameter.cases) auto
next
  case (CXXOperatorCallExpr i op d c arg0 as)
  assume "mbInsideFunctionDecl st" "assignsToParameter e p"
  with CXXOperatorCallExpr show ?thesis
    by (cases "(arg0, p)" rule: refersToParameter.cases) auto
qed simp_all

lemma foldl_WalkUpFrom_flag:
  "mbInsideFunctionDecl (foldl WalkUpFrom st es) = mbInsideFunctionDecl st"
  by (induction es arbitrary: st) (simp_all add: WalkUpFrom_flag)

lemma foldl_WalkUpFrom_mono:
  "mParamExclusions st \<subseteq> mParamExclusions (foldl WalkUpFrom st es)"
proof (induction es arbitrary: st)
  case Nil
  show ?case by simp
next
  case (Cons e es)
  have "mParamExclusions st \<subseteq> mParamExclusions (WalkUpFrom st e)"
    by (rule WalkUpFrom_mono)
  also have "\<dots> \<subseteq> mParamExclusions (foldl WalkUpFrom (WalkUpFrom st e) es)"
    by (rule Cons.IH)
  finally show ?case by simp
qed

lemma foldl_WalkUpFrom_records:
  "mbInsideFunctionDecl st \<Longrightarrow> e \<in> set es \<Longrightarrow> assignsToParameter e p \<Longrightarrow>
     p \<in> mParamExclusions (foldl WalkUpFrom st es)"
proof (induction es arbitrary: st)
  case Nil
  then show ?case by simp
next
  case (Cons x es)
  show ?case
  proof (cases "e = x")
    case True
    with Cons.prems have "p \<in> mParamExclusions (WalkUpFrom st x)"
      by (simp add: WalkUpFrom_records)
    then show ?thesis
      using foldl_WalkUpFrom_mono [of "WalkUpFrom st x" es] by auto
  next
    case False
    with Cons.prems have "e \<in> set es" by simp
    moreover have "mbInsideFunctionDecl (WalkUpFrom st x)"
      using Cons.prems by (simp add: WalkUpFrom_flag)
    ultimately show ?thesis
      using Cons.IH [of "WalkUpFrom st x"] Cons.prems by simp
  qed
qed

lemma checkParam_location:
  "d \<in> set (checkParam ctx st functionDecl q) \<Longrightarrow> diagLevel d = Warning \<Longrightarrow>
     diagLocation d = parmLocation q"
  by (auto simp: checkParam_def Let_def report_def split: if_splits)

lemma checkParam_excluded:
  "q \<in> mParamExclusions st \<Longrightarrow> checkParam ctx st functionDecl q = []"
  by (simp add: checkParam_def)

text \<open>
  C6, amended.  For every function, any of its parameters that is referred to directly by
  the left operand of a plain assignment, or by the first argument of a call of an
  overloaded \<^verbatim>\<open>=\<close>, \<^verbatim>\<open>+=\<close>, \<^verbatim>\<open>-=\<close>,
  \<^verbatim>\<open>*=\<close> or \<^verbatim>\<open>/=\<close>, in an expression that the traversal of the
  function reaches (the traversal does not go below an implicit cast at an ignored
  location), is in the exclusion set when the function has been traversed, and no warning
  is reported at the location of that parameter, whatever its type is.  (The parameters of
  a function are at distinct locations.)
\<close>

theorem C6_assigned_parameter_excluded:
  assumes "e \<in> set (traversedFunctionDecl ctx functionDecl)"
    and "assignsToParameter e p"
    and "p \<in> set (parameters functionDecl)"
    and "distinct (map parmLocation (parameters functionDecl))"
  shows "(functionIsChecked ctx functionDecl
            \<longrightarrow> p \<in> mParamExclusions (snd (TraverseFunctionDecl ctx st functionDecl)))
         \<and> (\<forall>d \<in> set (fst (TraverseFunctionDecl ctx st functionDecl)).
               diagLevel d = Warning \<longrightarrow> diagLocation d \<noteq> parmLocation p)"
proof (cases "functionIsChecked ctx functionDecl")
  case False
  then show ?thesis by (simp add: TraverseFunctionDecl_not_checked)
next
  case True
  define st3 where
    "st3 = (foldl WalkUpFrom \<lparr>mbInsideFunctionDecl = True, mParamExclusions = {}\<rparr>
              (traversedFunctionDecl ctx functionDecl))\<lparr>mbInsideFunctionDecl := False\<rparr>"
  have result: "TraverseFunctionDecl ctx st functionDecl =
      (concat (map (checkParam ctx st3 functionDecl) (parameters functionDecl)), st3)"
    using True by (simp add: TraverseFunctionDecl_checked st3_def Let_def)
  have excluded: "p \<in> mParamExclusions st3"
    using foldl_WalkUpFrom_records [OF _ assms(1) assms(2),
        of "\<lparr>mbInsideFunctionDecl = True, mParamExclusions = {}\<rparr>"]
    by (simp add: st3_def)
  have "diagLocation d \<noteq> parmLocation p"
    if d: "d \<in> set (concat (map (checkParam ctx st3 functionDecl) (parameters functionDecl)))"
      and w: "diagLevel d = Warning" for d
  proof
    assume same: "diagLocation d = parmLocation p"
    from d obtain q where q: "q \<in> set (parameters functionDecl)"
        "d \<in> set (checkParam ctx st3 functionDecl q)"
      by auto
    then have "parmLocation q = parmLocation p"
      using checkParam_location [OF q(2) w] same by simp
    moreover have "inj_on parmLocation (set (parameters functionDecl))"
      using assms(4) by (simp add: distinct_map)
    ultimately have "q = p"
      using q(1) assms(3) by (auto dest: inj_onD)
    with q(2) checkParam_excluded [OF excluded, of ctx functionDecl] show False
      by simp
  qed
  with excluded result show ?thesis by simp
qed

text \<open>
  Witness for C6: in the function above, written in the project, \<^verbatim>\<open>p\<close> is
  in the exclusion set and only \<^verbatim>\<open>q\<close> is reported.
\<close>

theorem C6_assigned_parameter_excluded_witness:
  "ex_parm ''p'' 210
     \<in> mParamExclusions (snd (TraverseFunctionDecl ex_context ex_initial (ex_function 1)))
   \<and> fst (TraverseFunctionDecl ex_context ex_initial (ex_function 1))
       = [report Warning ''passing %0 by value, rather pass by const lvalue reference''
            (FileLoc 1 220)]"
proof -
  have "ex_assignment 1 \<in> set (traversedFunctionDecl ex_context (ex_function 1))"
    "assignsToParameter (ex_assignment 1) (ex_parm ''p'' 210)"
    "ex_parm ''p'' 210 \<in> set (parameters (ex_function 1))"
    "distinct (map parmLocation (parameters (ex_function 1)))"
    "functionIsChecked ex_context (ex_function 1)"
    by code_simp+
  moreover have "fst (TraverseFunctionDecl ex_context ex_initial (ex_function 1))
       = [report Warning ''passing %0 by value, rather pass by const lvalue reference''
            (FileLoc 1 220)]"
    by code_simp
  ultimately show ?thesis
    using C6_assigned_parameter_excluded [of "ex_assignment 1" ex_context "ex_function 1"
        "ex_parm ''p'' 210" ex_initial]
    by simp
qed

subsection \<open>C8: the exclusion set does not outlive a function\<close>

text \<open>
  C8 as stated fails in its first assertion: the exclusion set is not the only mutable
  state.  The plugin object also holds the flag \<^verbatim>\<open>mbInsideFunctionDecl\<close>,
  which \<^verbatim>\<open>TraverseFunctionDecl\<close> writes and on which the callbacks depend:
  from two states with the same (empty) exclusion set the callback on
  \<^verbatim>\<open>p = q\<close> records \<^verbatim>\<open>p\<close> when the flag is set and nothing
  when it is not, and the traversal of a function resets a flag that was set.
\<close>

theorem C8_flag_is_mutable_state_counterexample:
  "mParamExclusions
      (VisitCXXOperatorCallExpr \<lparr>mbInsideFunctionDecl = True, mParamExclusions = {}\<rparr>
         (ex_assignment 1)) = {ex_parm ''p'' 210}
   \<and> mParamExclusions
      (VisitCXXOperatorCallExpr \<lparr>mbInsideFunctionDecl = False, mParamExclusions = {}\<rparr>
         (ex_assignment 1)) = {}
   \<and> mbInsideFunctionDecl
        (snd (TraverseFunctionDecl ex_context
                \<lparr>mbInsideFunctionDecl = True, mParamExclusions = {}\<rparr> (ex_function 1)))
       = False"
  by code_simp

text \<open>
  With the flag set, the callbacks on a node add exactly the parameters that the node
  assigns to.
\<close>

lemma WalkUpFrom_exact:
  "mbInsideFunctionDecl st \<Longrightarrow>
     mParamExclusions (WalkUpFrom st e) = mParamExclusions st \<union> {p. assignsToParameter e p}"
proof (cases e)
  case (BinaryOperator i opc l lhs rhs)
  assume "mbInsideFunctionDecl st"
  with BinaryOperator show ?thesis
    by (cases "(lhs, undefined :: ParmVarDecl)" rule: refersToParameter.cases) auto
next
  case (CXXOperatorCallExpr i op d c arg0 as)
  assume "mbInsideFunctionDecl st"
  with CXXOperatorCallExpr show ?thesis
    by (cases "(arg0, undefined :: ParmVarDecl)" rule: refersToParameter.cases) auto
qed simp_all

lemma foldl_WalkUpFrom_exact:
  "mbInsideFunctionDecl st \<Longrightarrow>
     mParamExclusions (foldl WalkUpFrom st es)
       = mParamExclusions st \<union> {p. \<exists>e \<in> set es. assignsToParameter e p}"
proof (induction es arbitrary: st)
  case Nil
  show ?case by simp
next
  case (Cons x es)
  have "mbInsideFunctionDecl (WalkUpFrom st x)"
    using Cons.prems by (simp add: WalkUpFrom_flag)
  then have "mParamExclusions (foldl WalkUpFrom (WalkUpFrom st x) es)
      = mParamExclusions (WalkUpFrom st x) \<union> {p. \<exists>e \<in> set es. assignsToParameter e p}"
    by (rule Cons.IH)
  also have "mParamExclusions (WalkUpFrom st x)
      = mParamExclusions st \<union> {p. assignsToParameter x p}"
    using Cons.prems by (rule WalkUpFrom_exact)
  finally show ?case by auto
qed

text \<open>
  C8, amended.  The plugin object has two mutable members, the exclusion set and the flag
  \<^verbatim>\<open>mbInsideFunctionDecl\<close>.  For a function that is traversed, the exclusion
  set is cleared at the start: after the traversal it holds exactly the parameters that
  the expressions reached in this function assign to, whatever it held before; the flag is
  false again; and the reports are those of the parameters of the function checked against
  that set.  A function that is skipped gets no report and leaves the state as it is.
  Hence the reports for a function do not depend on the state in which the plugin object
  is when the function is reached: an exclusion recorded while another function was
  traversed never affects them.
\<close>

theorem C8_exclusion_set_is_per_function:
  "(functionIsChecked ctx functionDecl \<longrightarrow>
      mParamExclusions (snd (TraverseFunctionDecl ctx st functionDecl))
        = {p. \<exists>e \<in> set (traversedFunctionDecl ctx functionDecl). assignsToParameter e p}
      \<and> \<not> mbInsideFunctionDecl (snd (TraverseFunctionDecl ctx st functionDecl))
      \<and> fst (TraverseFunctionDecl ctx st functionDecl)
          = concat (map (checkParam ctx (snd (TraverseFunctionDecl ctx st functionDecl))
                           functionDecl)
                      (parameters functionDecl)))
   \<and> (\<not> functionIsChecked ctx functionDecl \<longrightarrow>
         TraverseFunctionDecl ctx st functionDecl = ([], st))
   \<and> fst (TraverseFunctionDecl ctx st functionDecl)
       = fst (TraverseFunctionDecl ctx st' functionDecl)"
proof (cases "functionIsChecked ctx functionDecl")
  case True
  have "mParamExclusions
          (foldl WalkUpFrom \<lparr>mbInsideFunctionDecl = True, mParamExclusions = {}\<rparr>
             (traversedFunctionDecl ctx functionDecl))
        = {p. \<exists>e \<in> set (traversedFunctionDecl ctx functionDecl). assignsToParameter e p}"
    using foldl_WalkUpFrom_exact
      [of "\<lparr>mbInsideFunctionDecl = True, mParamExclusions = {}\<rparr>"
          "traversedFunctionDecl ctx functionDecl"]
    by simp
  with True show ?thesis
    by (simp add: TraverseFunctionDecl_checked Let_def)
next
  case False
  then show ?thesis
    by (simp add: TraverseFunctionDecl_not_checked)
qed

text \<open>
  Witness for C8: starting from a state whose exclusion set holds both parameters of the
  function above, the traversal of the function reports \<^verbatim>\<open>q\<close> all the same,
  and leaves the flag unset and an exclusion set with \<^verbatim>\<open>p\<close> only.
\<close>

theorem C8_exclusion_set_is_per_function_witness:
  "functionIsChecked ex_context (ex_function 1)
   \<and> fst (TraverseFunctionDecl ex_context ex_after_other_function (ex_function 1))
       = [report Warning ''passing %0 by value, rather pass by const lvalue reference''
            (FileLoc 1 220)]
   \<and> snd (TraverseFunctionDecl ex_context ex_after_other_function (ex_function 1))
       = \<lparr>mbInsideFunctionDecl = False, mParamExclusions = {ex_parm ''p'' 210}\<rparr>"
proof -
  have c: "functionIsChecked ex_context (ex_function 1)"
    by code_simp
  have a: "fst (TraverseFunctionDecl ex_context ex_initial (ex_function 1))
     = [report Warning ''passing %0 by value, rather pass by const lvalue reference''
          (FileLoc 1 220)]"
    by code_simp
  have b: "snd (TraverseFunctionDecl ex_context ex_after_other_function (ex_function 1))
       = \<lparr>mbInsideFunctionDecl = False, mParamExclusions = {ex_parm ''p'' 210}\<rparr>"
    by code_simp
  have d: "fst (TraverseFunctionDecl ex_context ex_after_other_function (ex_function 1))
             = fst (TraverseFunctionDecl ex_context ex_initial (ex_function 1))
           \<and> \<not> mbInsideFunctionDecl
                 (snd (TraverseFunctionDecl ex_context ex_after_other_function (ex_function 1)))"
    using C8_exclusion_set_is_per_function [where ctx = ex_context
        and functionDecl = "ex_function 1" and st = ex_after_other_function
        and st' = ex_initial] c
    by blast
  from a b c d show ?thesis
    by (simp only: simp_thms)
qed

end
